theory Spec2Isabelle
  imports Complex_Main "HOL-Library.Char_ord" "HOL-Library.List_Lexorder"
begin

section \<open>Strings and values of the host language\<close>

text \<open>
  A JavaScript string is modelled as a \<^typ>\<open>string\<close>, the list of its code units.
  \<open>length\<close> is the source's \<open>.length\<close>, \<open>take n\<close> is
  \<open>.substring(0, n)\<close> and \<open>@\<close> is \<open>+\<close> on strings. The two marks
  U+2713 and U+2717 that open a result line do not fit a \<^typ>\<open>char\<close>; they are
  written as the three bytes of their UTF-8 encoding.
  A value that may be absent is an \<open>option\<close>: \<open>None\<close> is \<open>undefined\<close>, and stands for
  \<open>null\<close> as well where the code only tests the value for truthiness.
\<close>

definition check_mark :: string where
  "check_mark = [CHR 0xE2, CHR 0x9C, CHR 0x93]"

definition cross_mark :: string where
  "cross_mark = [CHR 0xE2, CHR 0x9C, CHR 0x97]"

definition dquote :: string where
  "dquote = [CHR 0x22]"

definition newline :: string where
  "newline = [CHR 0x0A]"

text \<open>Decimal rendering of a non-negative integer inside a template literal.\<close>

function show_nat :: "nat \<Rightarrow> string" where
  "show_nat n =
     (if n < 10 then [''0123456789'' ! n]
      else show_nat (n div 10) @ [''0123456789'' ! (n mod 10)])"
  by pat_completeness auto
termination
  by (relation "measure (\<lambda>n. n)") auto

declare show_nat.simps [simp del]

text \<open>\<open>String(v)\<close> and \<open>`${v}`\<close> on a value that is a string or \<open>undefined\<close>.\<close>

definition String_js :: "string option \<Rightarrow> string" where
  "String_js v = (case v of None \<Rightarrow> ''undefined'' | Some s \<Rightarrow> s)"

text \<open>Truthiness of such a value: \<open>undefined\<close>, \<open>null\<close> and \<open>''\<close> are falsy.\<close>

definition truthy :: "string option \<Rightarrow> bool" where
  "truthy v = (case v of None \<Rightarrow> False | Some s \<Rightarrow> s \<noteq> [])"

text \<open>\<open>Array.prototype.join\<close> on an array of strings.\<close>

fun join :: "string \<Rightarrow> string list \<Rightarrow> string" where
  "join sep [] = []"
| "join sep [x] = x"
| "join sep (x # y # ys) = x @ sep @ join sep (y # ys)"

text \<open>\<open>Array.prototype.findIndex\<close>; \<open>None\<close> is the source's \<open>-1\<close>.\<close>

fun findIndex :: "('a \<Rightarrow> bool) \<Rightarrow> 'a list \<Rightarrow> nat option" where
  "findIndex P [] = None"
| "findIndex P (x # xs) =
     (if P x then Some 0 else map_option Suc (findIndex P xs))"

text \<open>A thrown \<open>Error\<close>; the code only ever reads its \<open>message\<close>.\<close>

datatype js_error = Error (message: string)

section \<open>Text truncation (\<open>truncateText\<close>, actions.js 2-5 and App.vue)\<close>

definition truncateText :: "string option \<Rightarrow> nat \<Rightarrow> string" where
  "truncateText text maxLength =
     (if \<not> truthy text then []
      else if length (the text) > maxLength then take maxLength (the text) @ ''...''
      else the text)"

section \<open>Action registry and tool schemas\<close>

text \<open>
  The result of awaiting an action's operation on the document-editing capability
  \<open>'d\<close>: the lifecycle notifications it emitted, in order, the message of the
  error it threw (if it did), and the capability's state afterwards.
\<close>

datatype event =
    StreamingStart
  | StreamingPartialResult "string option"
  | StreamingEnd "string option"
  | ErrorEvent string

record 'd run =
  events :: "event list"
  thrown :: "string option"
  after :: 'd

type_synonym 'd operation = "'d \<Rightarrow> string option \<Rightarrow> 'd run"

record 'd action =
  key :: string
  label :: string
  description :: string
  "method" :: "'d operation option"

text \<open>
  The capability surface \<open>ai.action\<close> of the external document-AI package: one
  operation per name. The operations themselves are not part of this repository.
\<close>

record 'd ai_action =
  ai_find :: "'d operation"
  ai_findAll :: "'d operation"
  ai_highlight :: "'d operation"
  ai_replace :: "'d operation"
  ai_replaceAll :: "'d operation"
  ai_insertTrackedChange :: "'d operation"
  ai_insertTrackedChanges :: "'d operation"
  ai_insertComment :: "'d operation"
  ai_insertComments :: "'d operation"
  ai_summarize :: "'d operation"
  ai_insertContent :: "'d operation"

text \<open>\<open>actionsDictionary\<close> (actions.js 175-231), in the order of the literal.\<close>

definition actionsDictionary :: "'d ai_action \<Rightarrow> (string \<times> (string \<times> string \<times> 'd operation)) list" where
  "actionsDictionary ai =
   [(''find'', (''Find'',
       ''Find the first occurrence of content in the document based on a search instruction'',
       ai_find ai)),
    (''findAll'', (''Find All'',
       ''Find all occurrences of content in the document based on a search instruction'',
       ai_findAll ai)),
    (''highlight'', (''Highlight'',
       ''Highlight specific text or sections in the document with optional color'',
       ai_highlight ai)),
    (''replace'', (''Replace'',
       ''Replace the first occurrence of content in the document with new text'',
       ai_replace ai)),
    (''replaceAll'', (''Replace All'',
       ''Replace all occurrences of content in the document with new text'',
       ai_replaceAll ai)),
    (''insertTrackedChange'', (''Insert Tracked Change'',
       ''Insert a single tracked change or suggestion in the document for review'',
       ai_insertTrackedChange ai)),
    (''insertTrackedChanges'', (''Insert Multiple Tracked Changes'',
       ''Insert multiple tracked changes or suggestions throughout the document'',
       ai_insertTrackedChanges ai)),
    (''insertComment'', (''Insert Comment'',
       ''Add a single comment or annotation to a specific part of the document'',
       ai_insertComment ai)),
    (''insertComments'', (''Insert Multiple Comments'',
       ''Add multiple comments or annotations throughout the document'',
       ai_insertComments ai)),
    (''summarize'', (''Summarize'',
       ''Generate a summary of the document content or specific sections'',
       ai_summarize ai)),
    (''insertContent'', (''Insert Content'',
       ''Insert new content, text, or sections into the document at appropriate locations'',
       ai_insertContent ai))]"

text \<open>
  \<open>Object.keys(actionsDictionary).sort().map(key => ({key, ...actionsDictionary[key]}))\<close>
  (App.vue 782-789, and \<open>buildAvailableActions\<close> of the class). The default sort
  compares code units, which is the lexicographic order on \<^typ>\<open>string\<close>.
\<close>

definition availableActions :: "'d ai_action \<Rightarrow> 'd action list" where
  "availableActions ai =
     map (\<lambda>k. case map_of (actionsDictionary ai) k of
                 None \<Rightarrow> \<lparr>key = k, label = [], description = [], method = None\<rparr>
               | Some (l, d, m) \<Rightarrow> \<lparr>key = k, label = l, description = d, method = Some m\<rparr>)
         (sort (map fst (actionsDictionary ai)))"

text \<open>The function schema handed to the completion endpoint (\<open>convertToOpenAITool\<close>).\<close>

record property =
  property_type :: string
  property_description :: string

record parameters =
  parameters_type :: string
  properties :: "(string \<times> property) list"
  required :: "string list"

record function_schema =
  function_name :: string
  function_description :: string
  function_parameters :: parameters

record tool =
  tool_type :: string
  tool_function :: function_schema

definition convertToOpenAITool :: "'d action \<Rightarrow> tool" where
  "convertToOpenAITool a =
     \<lparr>tool_type = ''function'',
      tool_function =
        \<lparr>function_name = key a,
         function_description = description a,
         function_parameters =
           \<lparr>parameters_type = ''object'',
            properties =
              [(''prompt'',
                \<lparr>property_type = ''string'',
                 property_description = ''The specific instruction or prompt for this action''\<rparr>)],
            required = [''prompt'']\<rparr>\<rparr>\<rparr>"

definition buildToolsArray :: "'d action list \<Rightarrow> tool list" where
  "buildToolsArray actions = map convertToOpenAITool actions"

section \<open>The session log (App.vue 777-833)\<close>

text \<open>
  A log record. \<open>partialResult\<close>, \<open>fullResult\<close> and \<open>error\<close> start as \<open>null\<close>;
  \<open>prompt\<close> is what the caller passed, which may be \<open>undefined\<close>.
\<close>

record log_record =
  log_id :: nat
  log_action :: string
  log_prompt :: "string option"
  log_status :: string
  log_partialResult :: "string option"
  log_fullResult :: "string option"
  log_error :: "string option"

text \<open>
  The object literal passed to \<open>updateCurrentLog\<close>: a key that is absent from the
  literal is \<open>None\<close>.
\<close>

record updates =
  upd_status :: "string option"
  upd_partialResult :: "string option"
  upd_fullResult :: "string option"
  upd_error :: "string option"

definition Object_assign :: "log_record \<Rightarrow> updates \<Rightarrow> log_record" where
  "Object_assign l u =
     l\<lparr>log_status := (case upd_status u of None \<Rightarrow> log_status l | Some v \<Rightarrow> v),
       log_partialResult :=
         (case upd_partialResult u of None \<Rightarrow> log_partialResult l | Some v \<Rightarrow> Some v),
       log_fullResult :=
         (case upd_fullResult u of None \<Rightarrow> log_fullResult l | Some v \<Rightarrow> Some v),
       log_error := (case upd_error u of None \<Rightarrow> log_error l | Some v \<Rightarrow> Some v)\<rparr>"

text \<open>
  The mutable state of one browser session: the log array, the id counter
  (\<open>let currentLogId = 0\<close>) and the document-AI instance \<open>aiInstance.value\<close>.
  \<open>executeAction\<close> returns at once while the instance is \<open>null\<close>, so the state
  of a running turn always holds one. The status banner and the enabled flag of the
  buttons are display state and are left out.
\<close>

record 'd session =
  actionLogs :: "log_record list"
  currentLogId :: nat
  aiInstance :: 'd

definition initial_session :: "'d \<Rightarrow> 'd session" where
  "initial_session ai = \<lparr>actionLogs = [], currentLogId = 0, aiInstance = ai\<rparr>"

definition addActionLog :: "string \<Rightarrow> string option \<Rightarrow> 'd session \<Rightarrow> 'd session" where
  "addActionLog act prompt s =
     s\<lparr>actionLogs := actionLogs s @
           [\<lparr>log_id = currentLogId s, log_action = act, log_prompt = prompt,
             log_status = ''Starting...'', log_partialResult = None,
             log_fullResult = None, log_error = None\<rparr>],
       currentLogId := currentLogId s + 1\<rparr>"

definition updateCurrentLog :: "updates \<Rightarrow> 'd session \<Rightarrow> 'd session" where
  "updateCurrentLog u s =
     (if length (actionLogs s) > 0
      then s\<lparr>actionLogs :=
             (actionLogs s)[length (actionLogs s) - 1 :=
                Object_assign (actionLogs s ! (length (actionLogs s) - 1)) u]\<rparr>
      else s)"

text \<open>The lifecycle callbacks registered in \<open>initializeAI\<close> (App.vue 871-903).\<close>

fun notify :: "event \<Rightarrow> 'd session \<Rightarrow> 'd session" where
  "notify StreamingStart s =
     updateCurrentLog \<lparr>upd_status = Some ''Processing...'', upd_partialResult = None,
                       upd_fullResult = None, upd_error = None\<rparr> s"
| "notify (StreamingPartialResult partial) s =
     updateCurrentLog \<lparr>upd_status = Some ''Streaming...'',
                       upd_partialResult = Some (truncateText partial 100),
                       upd_fullResult = None, upd_error = None\<rparr> s"
| "notify (StreamingEnd full) s =
     updateCurrentLog \<lparr>upd_status = Some ''Done.'', upd_partialResult = None,
                       upd_fullResult = Some (truncateText (Some (String_js full)) 100),
                       upd_error = None\<rparr> s"
| "notify (ErrorEvent msg) s =
     updateCurrentLog \<lparr>upd_status = Some ''Error'', upd_partialResult = None,
                       upd_fullResult = None, upd_error = Some msg\<rparr> s"

text \<open>
  Awaiting \<open>action.method(aiInstance.value, prompt)\<close>: the callbacks run in the order
  of emission, and the instance is left in the state the operation produced.
\<close>

definition await_method :: "'d operation \<Rightarrow> string option \<Rightarrow> 'd session \<Rightarrow> string option \<times> 'd session" where
  "await_method m prompt s =
     (let r = m (aiInstance s) prompt
      in (thrown r, (foldl (\<lambda>t e. notify e t) s (events r))\<lparr>aiInstance := after r\<rparr>))"

section \<open>Invocations (actions.js 60-133)\<close>

text \<open>
  The \<open>arguments\<close> string of a requested invocation, classified by what
  \<open>JSON.parse\<close> does with it: it throws a \<open>SyntaxError\<close> with some message, or it
  returns \<open>null\<close>, or it returns a value whose \<open>prompt\<close> property is \<open>undefined\<close>
  or a string. (A \<open>prompt\<close> of another JSON type is outside the model; the schema
  declares it a string.)
\<close>

datatype args = ArgsNull | Args "string option"

datatype payload = Malformed string | WellFormed args

definition JSON_parse :: "payload \<Rightarrow> js_error + args" where
  "JSON_parse p = (case p of Malformed m \<Rightarrow> Inl (Error m) | WellFormed a \<Rightarrow> Inr a)"

text \<open>\<open>args.prompt\<close>: reading a property of \<open>null\<close> throws a \<open>TypeError\<close>.\<close>

definition null_prompt_message :: string where
  "null_prompt_message =
     ''Cannot read properties of null (reading '' @ [CHR 0x27] @ ''prompt'' @ [CHR 0x27] @ '')''"

definition args_prompt :: "args \<Rightarrow> js_error + string option" where
  "args_prompt a = (case a of ArgsNull \<Rightarrow> Inl (Error null_prompt_message) | Args p \<Rightarrow> Inr p)"

text \<open>\<open>toolCall.function.name\<close> and \<open>toolCall.function.arguments\<close>.\<close>

record tool_call =
  call_name :: string
  call_arguments :: payload

text \<open>
  The callbacks \<open>addActionLog\<close> and \<open>updateCurrentLog\<close> that \<open>actions.js\<close> takes
  as parameters are the two functions of \<open>App.vue\<close> above; every caller passes those.
  The methods of the class \<open>ActionHandler\<close> have the same statements, with the
  two functions reached through \<open>this.logger\<close>.
  A function that may throw returns \<open>Inl\<close> of the error, together with the session as
  it is at that moment.
\<close>

definition executeToolCall_catch :: "'d action \<Rightarrow> string \<Rightarrow> 'd session \<Rightarrow> (js_error + string) \<times> 'd session" where
  "executeToolCall_catch a msg s =
     (Inr (cross_mark @ '' '' @ label a @ '': Error - '' @ msg),
      updateCurrentLog
        \<lparr>upd_status = Some ''Error'', upd_partialResult = None,
         upd_fullResult = None, upd_error = Some msg\<rparr> s)"

definition executeToolCall :: "'d action list \<Rightarrow> tool_call \<Rightarrow> 'd session \<Rightarrow> (js_error + string) \<times> 'd session" where
  "executeToolCall actions toolCall s =
     (let functionName = call_name toolCall in
      case JSON_parse (call_arguments toolCall) of
        Inl e \<Rightarrow> (Inl e, s)
      | Inr args \<Rightarrow>
         (case (case find (\<lambda>a. key a = functionName) actions of
                  None \<Rightarrow> None
                | Some a \<Rightarrow> map_option (\<lambda>m. (a, m)) (method a)) of
            None \<Rightarrow>
              (case args_prompt args of
                 Inl e \<Rightarrow> (Inl e, s)
               | Inr prompt \<Rightarrow>
                   (Inr (cross_mark @ '' '' @ functionName @ '': Tool not found''),
                    updateCurrentLog
                      \<lparr>upd_status = Some ''Error'', upd_partialResult = None,
                       upd_fullResult = None, upd_error = Some ''Tool not found''\<rparr>
                      (addActionLog functionName prompt s)))
          | Some (a, m) \<Rightarrow>
              (case args_prompt args of
                 Inl e \<Rightarrow> executeToolCall_catch a (message e) s
               | Inr prompt \<Rightarrow>
                   (case await_method m prompt (addActionLog (label a) prompt s) of
                      (Some msg, s') \<Rightarrow> executeToolCall_catch a msg s'
                    | (None, s') \<Rightarrow>
                        (Inr (check_mark @ '' '' @ label a @ '': '' @ dquote
                              @ String_js prompt @ dquote),
                         updateCurrentLog
                           \<lparr>upd_status = Some ''Done.'', upd_partialResult = None,
                            upd_fullResult = None, upd_error = None\<rparr> s')))))"

text \<open>The loop of \<open>executeToolCalls\<close>; \<open>results\<close> is the array being filled.\<close>

fun executeToolCalls_loop ::
  "'d action list \<Rightarrow> tool_call list \<Rightarrow> string list \<Rightarrow> 'd session \<Rightarrow> (js_error + string list) \<times> 'd session" where
  "executeToolCalls_loop actions [] results s = (Inr results, s)"
| "executeToolCalls_loop actions (toolCall # rest) results s =
     (case executeToolCall actions toolCall s of
        (Inl e, s') \<Rightarrow> (Inl e, s')
      | (Inr result, s') \<Rightarrow> executeToolCalls_loop actions rest (results @ [result]) s')"

definition executeToolCalls :: "'d action list \<Rightarrow> tool_call list \<Rightarrow> 'd session \<Rightarrow> (js_error + string list) \<times> 'd session" where
  "executeToolCalls actions toolCalls s = executeToolCalls_loop actions toolCalls [] s"

text \<open>
  \<open>originalLogId\<close> is \<open>actionLogs.value[actionLogs.value.length - 1]?.id\<close>: a number,
  or \<open>undefined\<close> for an empty log. \<open>!originalLogId\<close> holds for \<open>undefined\<close> and for 0.
\<close>

definition truthy_number :: "nat option \<Rightarrow> bool" where
  "truthy_number v = (case v of None \<Rightarrow> False | Some n \<Rightarrow> n \<noteq> 0)"

definition updateOriginalLog :: "nat option \<Rightarrow> log_record list \<Rightarrow> nat \<Rightarrow> log_record list" where
  "updateOriginalLog originalLogId logs toolCallsCount =
     (if \<not> truthy_number originalLogId then logs
      else case findIndex (\<lambda>l. Some (log_id l) = originalLogId) logs of
             None \<Rightarrow> logs
           | Some i \<Rightarrow>
               logs[i := (logs ! i)\<lparr>log_status :=
                 ''All '' @ show_nat toolCallsCount @ '' function calls completed.''\<rparr>])"

definition handleError :: "js_error \<Rightarrow> nat option \<Rightarrow> 'd session \<Rightarrow> 'd session" where
  "handleError err originalLogId s =
     (if truthy_number originalLogId
      then (case findIndex (\<lambda>l. Some (log_id l) = originalLogId) (actionLogs s) of
              None \<Rightarrow> s
            | Some i \<Rightarrow>
                s\<lparr>actionLogs := (actionLogs s)[i := (actionLogs s ! i)
                     \<lparr>log_status := ''Open prompt failed.'',
                      log_error := Some (message err)\<rparr>]\<rparr>)
      else updateCurrentLog
             \<lparr>upd_status = Some ''Open prompt failed.'', upd_partialResult = None,
              upd_fullResult = None, upd_error = Some (message err)\<rparr> s)"

definition executeToolCallsFromPrompt ::
  "'d action list \<Rightarrow> tool_call list \<Rightarrow> nat option \<Rightarrow> 'd session \<Rightarrow> (js_error + string) \<times> 'd session" where
  "executeToolCallsFromPrompt actions toolCalls originalLogId s =
     (case executeToolCalls actions toolCalls s of
        (Inl e, s') \<Rightarrow> (Inl e, s')
      | (Inr toolResults, s') \<Rightarrow>
          (Inr (''Function calls executed:'' @ newline @ join newline toolResults),
           s'\<lparr>actionLogs := updateOriginalLog originalLogId (actionLogs s') (length toolCalls)\<rparr>))"

section \<open>The completion endpoint (\<open>callOpenAI\<close>, \<open>handleOpenPrompt\<close>)\<close>

text \<open>
  The body of the request, and the reply of \<open>fetch\<close>: \<open>response.ok\<close>,
  \<open>response.status\<close> and what \<open>await response.json()\<close> gives, which throws when the
  body is not JSON. The decoded reply has the documented shape
  \<open>{choices: [{message: {content?, tool_calls?}}], content?}\<close>.
\<close>

record request_body =
  messages :: "(string \<times> string) list"
  tools :: "tool list"
  tool_choice :: string
  temperature :: rat
  max_tokens :: nat

record request =
  request_method :: string
  headers :: "(string \<times> string) list"
  body :: request_body

record message =
  content :: "string option"
  tool_calls :: "tool_call list option"

record choice =
  choice_message :: "message option"

record data =
  choices :: "choice list option"
  data_content :: "string option"

record response =
  ok :: bool
  status :: nat
  json :: "js_error + data"

text \<open>
  What surrounds the module: the build-time setting \<open>import.meta.env.VITE_PROXY_URL\<close>,
  the network (\<open>fetch\<close> rejects with an error or resolves with a response) and
  \<open>JSON.stringify\<close> on a decoded reply.
\<close>

record env =
  VITE_PROXY_URL :: "string option"
  fetch :: "string \<Rightarrow> request \<Rightarrow> js_error + response"
  JSON_stringify :: "data \<Rightarrow> string"

text \<open>The second argument of \<open>fetch\<close> in \<open>callOpenAI\<close>.\<close>

definition completion_request :: "string \<Rightarrow> tool list \<Rightarrow> request" where
  "completion_request prompt tls =
     \<lparr>request_method = ''POST'',
      headers = [(''Content-Type'', ''application/json'')],
      body = \<lparr>messages = [(''user'', prompt)], tools = tls,
              tool_choice = ''auto'', temperature = 7 / 10,
              max_tokens = 1000\<rparr>\<rparr>"

text \<open>
  \<open>callOpenAI\<close> returns its result together with the list of network calls it made.
\<close>

definition callOpenAI :: "env \<Rightarrow> string \<Rightarrow> tool list \<Rightarrow> (js_error + data) \<times> (string \<times> request) list" where
  "callOpenAI e prompt tls =
     (let proxyUrl = VITE_PROXY_URL e in
      if \<not> truthy proxyUrl then (Inl (Error ''VITE_PROXY_URL not configured''), [])
      else
        case fetch e (the proxyUrl) (completion_request prompt tls) of
          Inl err \<Rightarrow> (Inl err, [(the proxyUrl, completion_request prompt tls)])
        | Inr response \<Rightarrow>
            if \<not> ok response
            then (Inl (Error (''HTTP error! status: '' @ show_nat (status response))),
                  [(the proxyUrl, completion_request prompt tls)])
            else (json response, [(the proxyUrl, completion_request prompt tls)]))"

datatype prompt_response =
    tool_calls_response (toolCalls: "tool_call list") (count: nat)
  | text_response string

text \<open>\<open>data.choices?.[0]?.message\<close>.\<close>

definition first_message :: "data \<Rightarrow> message option" where
  "first_message d =
     (case choices d of
        None \<Rightarrow> None
      | Some [] \<Rightarrow> None
      | Some (c # _) \<Rightarrow> choice_message c)"

text \<open>\<open>message?.tool_calls\<close> and \<open>message?.content\<close>.\<close>

definition message_tool_calls :: "message option \<Rightarrow> tool_call list option" where
  "message_tool_calls m = (case m of None \<Rightarrow> None | Some msg \<Rightarrow> tool_calls msg)"

definition message_content :: "message option \<Rightarrow> string option" where
  "message_content m = (case m of None \<Rightarrow> None | Some msg \<Rightarrow> content msg)"

text \<open>\<open>message?.content || data.content || JSON.stringify(data)\<close>.\<close>

definition text_result :: "env \<Rightarrow> data \<Rightarrow> string" where
  "text_result e d =
     (if truthy (message_content (first_message d)) then the (message_content (first_message d))
      else if truthy (data_content d) then the (data_content d)
      else JSON_stringify e d)"

definition handleOpenPrompt ::
  "env \<Rightarrow> string \<Rightarrow> 'd action list \<Rightarrow> nat option \<Rightarrow> 'd session \<Rightarrow> (js_error + prompt_response) \<times> 'd session" where
  "handleOpenPrompt e prompt actions originalLogId s =
     (let s1 = updateCurrentLog
                 \<lparr>upd_status = Some ''Processing open prompt...'', upd_partialResult = None,
                  upd_fullResult = None, upd_error = None\<rparr> s;
          tls = buildToolsArray actions
      in case fst (callOpenAI e prompt tls) of
           Inl err \<Rightarrow> (Inl err, handleError err originalLogId s1)
         | Inr d \<Rightarrow>
             (case message_tool_calls (first_message d) of
                Some (tc # tcs) \<Rightarrow>
                  (Inr (tool_calls_response (tc # tcs) (length (tc # tcs))),
                   updateCurrentLog
                     \<lparr>upd_status = Some (''Executing '' @ show_nat (length (tc # tcs))
                                          @ '' function call(s)...''),
                      upd_partialResult = None, upd_fullResult = None, upd_error = None\<rparr> s1)
              | _ \<Rightarrow>
                  (let result = text_result e d
                   in (Inr (text_response result),
                       updateCurrentLog
                         \<lparr>upd_status = Some ''No tools were run.'', upd_partialResult = None,
                          upd_fullResult = Some (truncateText (Some result) 100),
                          upd_error = None\<rparr> s1))))"

section \<open>A turn (\<open>executeAction\<close>, App.vue 914-967, prompt mode)\<close>

text \<open>
  \<open>prompt.value.trim()\<close> is empty exactly when every code unit of the prompt is white
  space; of the white space of the language, these lie in the range of \<^typ>\<open>char\<close>.
\<close>

definition white_space :: "char \<Rightarrow> bool" where
  "white_space c = (c \<in> set [CHR 0x09, CHR 0x0A, CHR 0x0B, CHR 0x0C, CHR 0x0D, CHR 0x20, CHR 0xA0])"

text \<open>
  One turn with \<open>mode.value === 'prompt'\<close>. The function returns nothing; the model
  returns the session it leaves behind.
\<close>

definition executeAction :: "env \<Rightarrow> 'd action list \<Rightarrow> string \<Rightarrow> 'd session \<Rightarrow> 'd session" where
  "executeAction e actions prompt s =
     (if list_all white_space prompt then s
      else
        let promptToExecute = prompt;
            s1 = addActionLog ''Open Prompt'' (Some promptToExecute) s;
            originalLogId = (if actionLogs s1 = [] then None
                             else Some (log_id (actionLogs s1 ! (length (actionLogs s1) - 1))));
            catch = (\<lambda>err t. updateCurrentLog
                       \<lparr>upd_status = Some ''Error'', upd_partialResult = None,
                        upd_fullResult = None, upd_error = Some (message err)\<rparr> t)
        in case handleOpenPrompt e promptToExecute actions originalLogId s1 of
             (Inl err, s2) \<Rightarrow> catch err s2
           | (Inr (text_response _), s2) \<Rightarrow> s2
           | (Inr (tool_calls_response tcs _), s2) \<Rightarrow>
               (case executeToolCallsFromPrompt actions tcs originalLogId s2 of
                  (Inl err, s3) \<Rightarrow> catch err s3
                | (Inr _, s3) \<Rightarrow> s3))"

section \<open>The relay service (proxy/server.js 12-45)\<close>

text \<open>
  The handler of \<open>POST /\<close>. Its surroundings: \<open>process.env.OPENAI_API_KEY\<close> and the
  upstream provider, reached through \<open>fetch\<close>; the upstream reply carries
  \<open>ok\<close>, \<open>status\<close>, its body as text, and its body decoded (which may throw).
  The request body and the replies are kept abstract in \<open>'b\<close> and \<open>'j\<close>. The handler
  yields the status code of the reply (200 unless \<open>reply.code\<close> was called), the
  value it returns, and the list of calls made to the upstream provider.
\<close>

record 'j upstream_response =
  up_ok :: bool
  up_status :: nat
  up_text :: string
  up_json :: "js_error + 'j"

record 'b upstream_request =
  up_url :: string
  up_authorization :: string
  up_model_default :: string
  up_body :: 'b
  up_stream :: bool

record ('b, 'j) relay_env =
  OPENAI_API_KEY :: "string option"
  upstream :: "'b upstream_request \<Rightarrow> js_error + 'j upstream_response"

datatype 'j relay_body = error_body string | data_body 'j

definition relay_post :: "('b, 'j) relay_env \<Rightarrow> 'b \<Rightarrow> nat \<times> 'j relay_body \<times> 'b upstream_request list" where
  "relay_post e request_body =
     (let openaiApiKey = OPENAI_API_KEY e in
      if \<not> truthy openaiApiKey then (500, error_body ''OPENAI_API_KEY not configured'', [])
      else
        let req = \<lparr>up_url = ''https://api.openai.com/v1/chat/completions'',
                   up_authorization = ''Bearer '' @ the openaiApiKey,
                   up_model_default = ''gpt-4o-mini'',
                   up_body = request_body,
                   up_stream = False\<rparr>
        in case upstream e req of
             Inl err \<Rightarrow> (500, error_body ''Internal server error'', [req])
           | Inr response \<Rightarrow>
               if \<not> up_ok response
               then (up_status response, error_body (up_text response), [req])
               else (case up_json response of
                       Inl err \<Rightarrow> (500, error_body ''Internal server error'', [req])
                     | Inr d \<Rightarrow> (200, data_body d, [req])))"

section \<open>Notions used to state the properties\<close>

text \<open>
  An invocation resolves when the lookup by name finds an action that has a method
  (the negation of the source's \<open>!action?.method\<close>).
\<close>

definition resolves :: "'d action list \<Rightarrow> tool_call \<Rightarrow> bool" where
  "resolves actions tc =
     (case find (\<lambda>a. key a = call_name tc) actions of
        None \<Rightarrow> False
      | Some a \<Rightarrow> (case method a of None \<Rightarrow> False | Some _ \<Rightarrow> True))"

text \<open>
  The payloads on which \<open>executeToolCall\<close> returns a result line: the payload parses,
  and it is not \<open>null\<close> unless the name resolves.
\<close>

definition completes :: "'d action list \<Rightarrow> tool_call \<Rightarrow> bool" where
  "completes actions tc =
     (case call_arguments tc of
        Malformed _ \<Rightarrow> False
      | WellFormed ArgsNull \<Rightarrow> resolves actions tc
      | WellFormed (Args _) \<Rightarrow> True)"

text \<open>The payload parses, and to a value other than \<open>null\<close>.\<close>

definition parses_to_value :: "tool_call \<Rightarrow> bool" where
  "parses_to_value tc =
     (case call_arguments tc of
        Malformed _ \<Rightarrow> False
      | WellFormed ArgsNull \<Rightarrow> False
      | WellFormed (Args _) \<Rightarrow> True)"

text \<open>The ids of the records are their positions, up to the counter.\<close>

definition ids_in_order :: "'d session \<Rightarrow> bool" where
  "ids_in_order s = (map log_id (actionLogs s) = [0..<currentLogId s])"

section \<open>A concrete capability and endpoint, for the examples\<close>

text \<open>
  The document is a counter of the operations applied to it. Every operation
  streams and succeeds, except \<open>replaceAll\<close>, which reports an error and throws.
\<close>

definition succeeding :: "nat operation" where
  "succeeding d p =
     \<lparr>events = [StreamingStart, StreamingPartialResult (Some ''wor''), StreamingEnd (Some ''work'')],
      thrown = None, after = Suc d\<rparr>"

definition failing :: "nat operation" where
  "failing d p =
     \<lparr>events = [StreamingStart, ErrorEvent ''No match''], thrown = Some ''No match'', after = d\<rparr>"

definition example_ai :: "nat ai_action" where
  "example_ai =
     \<lparr>ai_find = succeeding, ai_findAll = succeeding, ai_highlight = succeeding,
      ai_replace = succeeding, ai_replaceAll = failing,
      ai_insertTrackedChange = succeeding, ai_insertTrackedChanges = succeeding,
      ai_insertComment = succeeding, ai_insertComments = succeeding,
      ai_summarize = succeeding, ai_insertContent = succeeding\<rparr>"

definition highlight_call :: tool_call where
  "highlight_call = \<lparr>call_name = ''highlight'', call_arguments = WellFormed (Args (Some ''the title''))\<rparr>"

definition replace_call :: tool_call where
  "replace_call = \<lparr>call_name = ''replace'', call_arguments = WellFormed (Args (Some ''foo by bar''))\<rparr>"

definition replaceAll_call :: tool_call where
  "replaceAll_call = \<lparr>call_name = ''replaceAll'', call_arguments = WellFormed (Args (Some ''foo by bar''))\<rparr>"

definition translate_call :: tool_call where
  "translate_call = \<lparr>call_name = ''translate'', call_arguments = WellFormed (Args (Some ''to French''))\<rparr>"

definition translate_null_call :: tool_call where
  "translate_null_call = \<lparr>call_name = ''translate'', call_arguments = WellFormed ArgsNull\<rparr>"

definition highlight_null_call :: tool_call where
  "highlight_null_call = \<lparr>call_name = ''highlight'', call_arguments = WellFormed ArgsNull\<rparr>"

definition truncated_call :: tool_call where
  "truncated_call = \<lparr>call_name = ''highlight'', call_arguments = Malformed ''Unexpected end of JSON input''\<rparr>"

definition example_reply :: "tool_call list option \<Rightarrow> string option \<Rightarrow> string option \<Rightarrow> response" where
  "example_reply calls msg_content top_content =
     \<lparr>ok = True, status = 200,
      json = Inr \<lparr>choices = Some [\<lparr>choice_message =
                      Some \<lparr>content = msg_content, tool_calls = calls\<rparr>\<rparr>],
                  data_content = top_content\<rparr>\<rparr>"

definition example_env :: "response \<Rightarrow> env" where
  "example_env r =
     \<lparr>VITE_PROXY_URL = Some ''http://localhost:8080'',
      fetch = (\<lambda>url req. Inr r),
      JSON_stringify = (\<lambda>d. ''{}'')\<rparr>"

section \<open>Truncation\<close>

text \<open>
  C7. With limit 100, \<open>truncateText\<close> returns a string of at most 100 characters
  unchanged, returns the first 100 characters followed by the three characters
  \<open>...\<close> for a longer string, and returns the empty string for an absent or empty
  input; applied again to the result for a short string it changes nothing.
\<close>

theorem truncateText_100:
  "(length s \<le> 100 \<longrightarrow> truncateText (Some s) 100 = s)
   \<and> (length s > 100 \<longrightarrow>
        truncateText (Some s) 100 = take 100 s @ ''...''
        \<and> length (truncateText (Some s) 100) = 103)
   \<and> truncateText None 100 = []
   \<and> truncateText (Some []) 100 = []
   \<and> (length s \<le> 100 \<longrightarrow>
        truncateText (Some (truncateText (Some s) 100)) 100 = truncateText (Some s) 100)"
  by (cases s) (simp_all add: truncateText_def truthy_def)

theorem truncateText_100_witness:
  "length ''Summarize'' \<le> 100 \<and> truncateText (Some ''Summarize'') 100 = ''Summarize''
   \<and> length (replicate 101 CHR ''a'') > 100
   \<and> truncateText (Some (replicate 101 CHR ''a'')) 100 = replicate 100 CHR ''a'' @ ''...''
   \<and> truncateText (Some (truncateText (Some ''Summarize'') 100)) 100 = ''Summarize''"
  using truncateText_100 [of "''Summarize''"] truncateText_100 [of "replicate 101 CHR ''a''"]
  by simp

section \<open>Tool schema builder\<close>

text \<open>
  C8. \<open>buildToolsArray\<close> yields one schema per action, in the order of the action
  list: the names are the actions' keys, the descriptions the actions' descriptions,
  and every schema declares the single property \<open>prompt\<close> of type string with the
  fixed description, and requires exactly \<open>prompt\<close>.
\<close>

theorem buildToolsArray_schemas:
  "length (buildToolsArray actions) = length actions
   \<and> map (function_name \<circ> tool_function) (buildToolsArray actions) = map key actions
   \<and> map (function_description \<circ> tool_function) (buildToolsArray actions) = map description actions
   \<and> map (properties \<circ> function_parameters \<circ> tool_function) (buildToolsArray actions) =
       replicate (length actions)
         [(''prompt'',
           \<lparr>property_type = ''string'',
            property_description = ''The specific instruction or prompt for this action''\<rparr>)]
   \<and> map (required \<circ> function_parameters \<circ> tool_function) (buildToolsArray actions) =
       replicate (length actions) [''prompt'']
   \<and> map tool_type (buildToolsArray actions) = replicate (length actions) ''function''
   \<and> map (parameters_type \<circ> function_parameters \<circ> tool_function) (buildToolsArray actions) =
       replicate (length actions) ''object''"
  by (induction actions) (simp_all add: buildToolsArray_def convertToOpenAITool_def)

section \<open>The registry, evaluated\<close>

lemma availableActions_keys:
  "map key (availableActions ai) =
     [''find'', ''findAll'', ''highlight'', ''insertComment'', ''insertComments'',
      ''insertContent'', ''insertTrackedChange'', ''insertTrackedChanges'', ''replace'',
      ''replaceAll'', ''summarize'']"
  by (simp add: availableActions_def actionsDictionary_def)

lemma availableActions_labels:
  "map label (availableActions ai) =
     [''Find'', ''Find All'', ''Highlight'', ''Insert Comment'', ''Insert Multiple Comments'',
      ''Insert Content'', ''Insert Tracked Change'', ''Insert Multiple Tracked Changes'', ''Replace'',
      ''Replace All'', ''Summarize'']"
  by (simp add: availableActions_def actionsDictionary_def)

lemma availableActions_methods:
  "map method (availableActions ai) =
     [Some (ai_find ai), Some (ai_findAll ai), Some (ai_highlight ai), Some (ai_insertComment ai),
      Some (ai_insertComments ai), Some (ai_insertContent ai), Some (ai_insertTrackedChange ai),
      Some (ai_insertTrackedChanges ai), Some (ai_replace ai), Some (ai_replaceAll ai),
      Some (ai_summarize ai)]"
  by (simp add: availableActions_def actionsDictionary_def)

lemma registry_find_highlight:
  "find (\<lambda>a. key a = ''highlight'') (availableActions ai) =
     Some \<lparr>key = ''highlight'', label = ''Highlight'',
           description = ''Highlight specific text or sections in the document with optional color'',
           method = Some (ai_highlight ai)\<rparr>"
  by (simp add: availableActions_def actionsDictionary_def)

lemma registry_find_replace:
  "find (\<lambda>a. key a = ''replace'') (availableActions ai) =
     Some \<lparr>key = ''replace'', label = ''Replace'',
           description = ''Replace the first occurrence of content in the document with new text'',
           method = Some (ai_replace ai)\<rparr>"
  by (simp add: availableActions_def actionsDictionary_def)

lemma registry_find_replaceAll:
  "find (\<lambda>a. key a = ''replaceAll'') (availableActions ai) =
     Some \<lparr>key = ''replaceAll'', label = ''Replace All'',
           description = ''Replace all occurrences of content in the document with new text'',
           method = Some (ai_replaceAll ai)\<rparr>"
  by (simp add: availableActions_def actionsDictionary_def)

lemma registry_find_translate:
  "find (\<lambda>a. key a = ''translate'') (availableActions ai) = None"
  by (simp add: availableActions_def actionsDictionary_def)

section \<open>The log under updates and notifications\<close>

text \<open>
  \<open>updateCurrentLog\<close>, and with it every lifecycle callback, touches the last record
  only and keeps its id, action and prompt.
\<close>

lemma updateCurrentLog_fields [simp]:
  "currentLogId (updateCurrentLog u s) = currentLogId s"
  "aiInstance (updateCurrentLog u s) = aiInstance s"
  "length (actionLogs (updateCurrentLog u s)) = length (actionLogs s)"
  by (simp_all add: updateCurrentLog_def)

lemma updateCurrentLog_snoc:
  "actionLogs s = xs @ [l] \<Longrightarrow> actionLogs (updateCurrentLog u s) = xs @ [Object_assign l u]"
  by (simp add: updateCurrentLog_def)

lemma Object_assign_fields [simp]:
  "log_id (Object_assign l u) = log_id l"
  "log_action (Object_assign l u) = log_action l"
  "log_prompt (Object_assign l u) = log_prompt l"
  by (simp_all add: Object_assign_def)

lemma notify_fields [simp]:
  "currentLogId (notify ev s) = currentLogId s"
  "aiInstance (notify ev s) = aiInstance s"
  "length (actionLogs (notify ev s)) = length (actionLogs s)"
  by (cases ev; simp)+

lemma notify_snoc:
  "actionLogs s = xs @ [l] \<Longrightarrow>
     \<exists>l'. actionLogs (notify ev s) = xs @ [l'] \<and> log_id l' = log_id l
          \<and> log_action l' = log_action l \<and> log_prompt l' = log_prompt l"
  by (cases ev) (simp_all add: updateCurrentLog_snoc)

lemma notifications_snoc:
  "actionLogs s = xs @ [l] \<Longrightarrow>
     \<exists>l'. actionLogs (foldl (\<lambda>t e. notify e t) s es) = xs @ [l'] \<and> log_id l' = log_id l
          \<and> log_action l' = log_action l \<and> log_prompt l' = log_prompt l"
proof (induction es arbitrary: s l)
  case Nil
  then show ?case by simp
next
  case (Cons ev es)
  from notify_snoc [OF Cons.prems, of ev] obtain l1 where
    l1: "actionLogs (notify ev s) = xs @ [l1]" "log_id l1 = log_id l"
        "log_action l1 = log_action l" "log_prompt l1 = log_prompt l"
    by blast
  from Cons.IH [OF l1(1)] l1(2-4) show ?case by simp
qed

lemma notifications_currentLogId [simp]:
  "currentLogId (foldl (\<lambda>t e. notify e t) s es) = currentLogId s"
  by (induction es arbitrary: s) simp_all

lemma await_method_snoc:
  assumes "actionLogs s = xs @ [l]"
  shows "\<exists>l'. actionLogs (snd (await_method m p s)) = xs @ [l'] \<and> log_id l' = log_id l
          \<and> log_action l' = log_action l \<and> log_prompt l' = log_prompt l"
    and "currentLogId (snd (await_method m p s)) = currentLogId s"
    and "fst (await_method m p s) = thrown (m (aiInstance s) p)"
  using notifications_snoc [OF assms, of "events (m (aiInstance s) p)"]
  by (simp_all add: await_method_def Let_def)

section \<open>The batch loop\<close>

lemma loop_results:
  "executeToolCalls_loop actions tcs results s =
     (case executeToolCalls actions tcs s of
        (Inl e, s') \<Rightarrow> (Inl e, s')
      | (Inr lines, s') \<Rightarrow> (Inr (results @ lines), s'))"
proof (induction tcs arbitrary: results s)
  case Nil
  show ?case by (simp add: executeToolCalls_def)
next
  case (Cons tc tcs)
  show ?case
    unfolding executeToolCalls_def
    by (simp add: Cons.IH [of "results @ _"] Cons.IH [of "[_]"] split: prod.splits sum.splits)
qed

lemma executeToolCalls_Nil: "executeToolCalls actions [] s = (Inr [], s)"
  by (simp add: executeToolCalls_def)

lemma executeToolCalls_Cons:
  "executeToolCalls actions (tc # tcs) s =
     (case executeToolCall actions tc s of
        (Inl e, s') \<Rightarrow> (Inl e, s')
      | (Inr line, s') \<Rightarrow>
          (case executeToolCalls actions tcs s' of
             (Inl e, s'') \<Rightarrow> (Inl e, s'')
           | (Inr lines, s'') \<Rightarrow> (Inr (line # lines), s'')))"
  by (simp add: executeToolCalls_def loop_results [of _ _ "[_]"] split: prod.splits sum.splits)

lemma executeToolCalls_append:
  "executeToolCalls actions (xs @ ys) s =
     (case executeToolCalls actions xs s of
        (Inl e, s') \<Rightarrow> (Inl e, s')
      | (Inr lines, s') \<Rightarrow>
          (case executeToolCalls actions ys s' of
             (Inl e, s'') \<Rightarrow> (Inl e, s'')
           | (Inr lines', s'') \<Rightarrow> (Inr (lines @ lines'), s'')))"
proof (induction xs arbitrary: s)
  case Nil
  show ?case by (simp add: executeToolCalls_Nil split: prod.splits sum.splits)
next
  case (Cons x xs)
  show ?case
    by (simp add: executeToolCalls_Cons Cons.IH split: prod.splits sum.splits)
qed

lemma executeToolCall_Malformed:
  "call_arguments tc = Malformed m \<Longrightarrow> executeToolCall actions tc s = (Inl (Error m), s)"
  by (simp add: executeToolCall_def JSON_parse_def)

lemma executeToolCall_completes:
  "completes actions tc \<longleftrightarrow> (\<exists>line. fst (executeToolCall actions tc s) = Inr line)"
  by (auto simp: completes_def resolves_def executeToolCall_def JSON_parse_def args_prompt_def
      executeToolCall_catch_def Let_def split: payload.splits args.splits option.splits prod.splits)

lemma executeToolCall_not_found:
  assumes "\<not> resolves actions tc" and "call_arguments tc = WellFormed (Args p)"
  shows "executeToolCall actions tc s =
     (Inr (cross_mark @ '' '' @ call_name tc @ '': Tool not found''),
      s\<lparr>actionLogs := actionLogs s @
           [\<lparr>log_id = currentLogId s, log_action = call_name tc, log_prompt = p,
             log_status = ''Error'', log_partialResult = None, log_fullResult = None,
             log_error = Some ''Tool not found''\<rparr>],
        currentLogId := currentLogId s + 1\<rparr>)"
  using assms
  by (auto simp: resolves_def executeToolCall_def JSON_parse_def args_prompt_def
      updateCurrentLog_def addActionLog_def Object_assign_def Let_def split: option.splits)

section \<open>Record ids, and the completion update of a later turn\<close>

text \<open>
  Ids stay in order through a batch, so a record is found at the position its id
  names. For a turn whose record has an id other than 0 the completion update
  therefore reaches that record.
\<close>

lemma updateCurrentLog_ids [simp]:
  "map log_id (actionLogs (updateCurrentLog u s)) = map log_id (actionLogs s)"
proof (cases "actionLogs s" rule: rev_cases)
  case Nil
  then show ?thesis by (simp add: updateCurrentLog_def)
next
  case (snoc xs l)
  then show ?thesis by (simp add: updateCurrentLog_snoc)
qed

lemma notify_ids [simp]:
  "map log_id (actionLogs (notify ev s)) = map log_id (actionLogs s)"
  by (cases ev) simp_all

lemma notifications_ids [simp]:
  "map log_id (actionLogs (foldl (\<lambda>t e. notify e t) s es)) = map log_id (actionLogs s)"
  by (induction es arbitrary: s) simp_all

lemma await_method_ids [simp]:
  "map log_id (actionLogs (snd (await_method m p s))) = map log_id (actionLogs s)"
  "currentLogId (snd (await_method m p s)) = currentLogId s"
  by (simp_all add: await_method_def Let_def)

lemma addActionLog_ids:
  "ids_in_order s \<Longrightarrow> ids_in_order (addActionLog act p s)"
  by (simp add: ids_in_order_def addActionLog_def)

lemma executeToolCall_ids:
  assumes "ids_in_order s"
  shows "ids_in_order (snd (executeToolCall actions tc s))
    \<and> currentLogId s \<le> currentLogId (snd (executeToolCall actions tc s))"
proof -
  have add: "map log_id (actionLogs (addActionLog act p s)) = [0..<currentLogId (addActionLog act p s)]"
    for act p
    using addActionLog_ids [OF assms] by (simp add: ids_in_order_def)
  have cnt: "currentLogId (addActionLog act p s) = Suc (currentLogId s)" for act p
    by (simp add: addActionLog_def)
  have aw: "await_method m p t = (x, t') \<Longrightarrow>
      map log_id (actionLogs t') = map log_id (actionLogs t) \<and> currentLogId t' = currentLogId t"
    for m p x and t t' :: "'a session"
    using await_method_ids [of m p t] by simp
  show ?thesis
    using assms add cnt
    by (auto simp: executeToolCall_def executeToolCall_catch_def ids_in_order_def Let_def
        dest!: aw split: sum.splits option.splits prod.splits)
qed

lemma executeToolCalls_ids:
  "ids_in_order s \<Longrightarrow>
     ids_in_order (snd (executeToolCalls actions tcs s))
     \<and> currentLogId s \<le> currentLogId (snd (executeToolCalls actions tcs s))"
proof (induction tcs arbitrary: s)
  case Nil
  then show ?case by (simp add: executeToolCalls_Nil)
next
  case (Cons tc tcs)
  from executeToolCall_ids [OF Cons.prems, of actions tc]
  have 1: "ids_in_order (snd (executeToolCall actions tc s))"
    and 2: "currentLogId s \<le> currentLogId (snd (executeToolCall actions tc s))"
    by simp_all
  from Cons.IH [OF 1] 1 2 show ?case
    by (auto simp: executeToolCalls_Cons split: prod.splits sum.splits)
qed

lemma findIndex_upt:
  "map f xs = [k..<k + length xs] \<Longrightarrow> i < length xs \<Longrightarrow>
     findIndex (\<lambda>x. Some (f x) = Some (k + i)) xs = Some i"
proof (induction xs arbitrary: k i)
  case Nil
  then show ?case by simp
next
  case (Cons x xs)
  have "[k..<k + length (x # xs)] = k # [Suc k..<k + length (x # xs)]"
    by (rule upt_conv_Cons) simp
  with Cons.prems(1) have "f x # map f xs = k # [Suc k..<Suc k + length xs]"
    by simp
  then have hd: "f x = k" and tl: "map f xs = [Suc k..<Suc k + length xs]"
    by blast+
  show ?case
  proof (cases i)
    case 0
    with hd show ?thesis by simp
  next
    case (Suc j)
    with Cons.prems(2) have "j < length xs" by simp
    from Cons.IH [OF tl this] hd Suc show ?thesis by simp
  qed
qed

lemma updateOriginalLog_later:
  assumes "map log_id logs = [0..<length logs]" and "0 < i" and "i < length logs"
  shows "updateOriginalLog (Some i) logs n =
     logs[i := (logs ! i)\<lparr>log_status := ''All '' @ show_nat n @ '' function calls completed.''\<rparr>]"
  using findIndex_upt [of log_id logs 0 i] assms
  by (simp add: updateOriginalLog_def truthy_number_def)

lemma completion_update_of_later_turn:
  assumes "ids_in_order s" and "0 < i" and "i < currentLogId s"
    and "executeToolCalls actions tcs s = (Inr lines, s')"
  shows "fst (executeToolCallsFromPrompt actions tcs (Some i) s) =
           Inr (''Function calls executed:'' @ newline @ join newline lines)"
    and "log_id (actionLogs (snd (executeToolCallsFromPrompt actions tcs (Some i) s)) ! i) = i"
    and "log_status (actionLogs (snd (executeToolCallsFromPrompt actions tcs (Some i) s)) ! i) =
           ''All '' @ show_nat (length tcs) @ '' function calls completed.''"
proof -
  from executeToolCalls_ids [OF assms(1), of actions tcs] assms(4)
  have ids: "map log_id (actionLogs s') = [0..<currentLogId s']"
    and le: "currentLogId s \<le> currentLogId s'"
    by (simp_all add: ids_in_order_def)
  from ids have len: "length (actionLogs s') = currentLogId s'"
    by (metis length_map length_upt minus_nat.diff_0)
  with le assms(3) have i: "i < length (actionLogs s')" by simp
  from ids len have ids': "map log_id (actionLogs s') = [0..<length (actionLogs s')]" by simp
  have idi: "log_id (actionLogs s' ! i) = i"
    using ids' i by (metis add_0 nth_map nth_upt)
  note upd = updateOriginalLog_later [OF ids' assms(2) i, of "length tcs"]
  show "fst (executeToolCallsFromPrompt actions tcs (Some i) s) =
           Inr (''Function calls executed:'' @ newline @ join newline lines)"
    by (simp add: executeToolCallsFromPrompt_def assms(4))
  show "log_id (actionLogs (snd (executeToolCallsFromPrompt actions tcs (Some i) s)) ! i) = i"
    using i idi by (simp add: executeToolCallsFromPrompt_def assms(4) upd)
  show "log_status (actionLogs (snd (executeToolCallsFromPrompt actions tcs (Some i) s)) ! i) =
           ''All '' @ show_nat (length tcs) @ '' function calls completed.''"
    using i by (simp add: executeToolCallsFromPrompt_def assms(4) upd)
qed

section \<open>Runs on the example capability\<close>

lemma highlight_run:
  "executeToolCall (availableActions example_ai) highlight_call s =
     (Inr (check_mark @ '' Highlight: '' @ dquote @ ''the title'' @ dquote),
      s\<lparr>actionLogs := actionLogs s @
           [\<lparr>log_id = currentLogId s, log_action = ''Highlight'', log_prompt = Some ''the title'',
             log_status = ''Done.'', log_partialResult = Some ''wor'', log_fullResult = Some ''work'',
             log_error = None\<rparr>],
        currentLogId := currentLogId s + 1, aiInstance := Suc (aiInstance s)\<rparr>)"
  by (simp add: highlight_call_def executeToolCall_def registry_find_highlight JSON_parse_def args_prompt_def
      await_method_def addActionLog_def updateCurrentLog_def Object_assign_def truncateText_def
      truthy_def String_js_def example_ai_def succeeding_def Let_def)

lemma replace_run:
  "executeToolCall (availableActions example_ai) replace_call s =
     (Inr (check_mark @ '' Replace: '' @ dquote @ ''foo by bar'' @ dquote),
      s\<lparr>actionLogs := actionLogs s @
           [\<lparr>log_id = currentLogId s, log_action = ''Replace'', log_prompt = Some ''foo by bar'',
             log_status = ''Done.'', log_partialResult = Some ''wor'', log_fullResult = Some ''work'',
             log_error = None\<rparr>],
        currentLogId := currentLogId s + 1, aiInstance := Suc (aiInstance s)\<rparr>)"
  by (simp add: replace_call_def executeToolCall_def registry_find_replace JSON_parse_def args_prompt_def
      await_method_def addActionLog_def updateCurrentLog_def Object_assign_def truncateText_def
      truthy_def String_js_def example_ai_def succeeding_def Let_def)

lemma example_batch:
  "executeToolCalls (availableActions example_ai) [highlight_call, replace_call] s =
     (Inr [check_mark @ '' Highlight: '' @ dquote @ ''the title'' @ dquote,
           check_mark @ '' Replace: '' @ dquote @ ''foo by bar'' @ dquote],
      s\<lparr>actionLogs := actionLogs s @
           [\<lparr>log_id = currentLogId s, log_action = ''Highlight'', log_prompt = Some ''the title'',
             log_status = ''Done.'', log_partialResult = Some ''wor'', log_fullResult = Some ''work'',
             log_error = None\<rparr>,
            \<lparr>log_id = currentLogId s + 1, log_action = ''Replace'', log_prompt = Some ''foo by bar'',
             log_status = ''Done.'', log_partialResult = Some ''wor'', log_fullResult = Some ''work'',
             log_error = None\<rparr>],
        currentLogId := currentLogId s + 2, aiInstance := Suc (Suc (aiInstance s))\<rparr>)"
  by (simp add: executeToolCalls_Cons executeToolCalls_Nil highlight_run replace_run)

lemma example_turn_prompt:
  "handleOpenPrompt (example_env (example_reply (Some [highlight_call, replace_call]) None None))
     p (availableActions example_ai) oid s =
   (Inr (tool_calls_response [highlight_call, replace_call] 2),
    updateCurrentLog \<lparr>upd_status = Some ''Executing 2 function call(s)...'',
       upd_partialResult = None, upd_fullResult = None, upd_error = None\<rparr> s)"
  by (simp add: handleOpenPrompt_def callOpenAI_def example_env_def example_reply_def truthy_def
      first_message_def message_tool_calls_def show_nat.simps updateCurrentLog_def Object_assign_def Let_def)

section \<open>Failures of an invocation\<close>

text \<open>
  C4. When the operation of a resolved invocation throws with message \<open>msg\<close>, the
  invocation returns the line made of the cross mark, the action's label,
  \<open>: Error - \<close> and \<open>msg\<close>; the record appended for this invocation (id
  the counter's value, action the label, the parsed prompt) ends with status
  \<open>Error\<close> and \<open>msg\<close> in its error field, the earlier records are as before, and
  the loop goes on with the remaining invocations from the session so reached.
\<close>

theorem executeToolCall_operation_failure:
  assumes "find (\<lambda>a. key a = call_name tc) actions = Some a"
    and "method a = Some m"
    and "call_arguments tc = WellFormed (Args p)"
    and "thrown (m (aiInstance s) p) = Some msg"
  shows "fst (executeToolCall actions tc s) = Inr (cross_mark @ '' '' @ label a @ '': Error - '' @ msg)
    \<and> butlast (actionLogs (snd (executeToolCall actions tc s))) = actionLogs s
    \<and> log_id (last (actionLogs (snd (executeToolCall actions tc s)))) = currentLogId s
    \<and> log_action (last (actionLogs (snd (executeToolCall actions tc s)))) = label a
    \<and> log_prompt (last (actionLogs (snd (executeToolCall actions tc s)))) = p
    \<and> log_status (last (actionLogs (snd (executeToolCall actions tc s)))) = ''Error''
    \<and> log_error (last (actionLogs (snd (executeToolCall actions tc s)))) = Some msg
    \<and> executeToolCalls_loop actions (tc # rest) results s =
        executeToolCalls_loop actions rest
          (results @ [cross_mark @ '' '' @ label a @ '': Error - '' @ msg])
          (snd (executeToolCall actions tc s))"
proof -
  define s1 where "s1 = addActionLog (label a) p s"
  have logs1: "actionLogs s1 = actionLogs s @
      [\<lparr>log_id = currentLogId s, log_action = label a, log_prompt = p,
        log_status = ''Starting...'', log_partialResult = None,
        log_fullResult = None, log_error = None\<rparr>]"
    by (simp add: s1_def addActionLog_def)
  have ai1: "aiInstance s1 = aiInstance s"
    by (simp add: s1_def addActionLog_def)
  obtain l' where l': "actionLogs (snd (await_method m p s1)) = actionLogs s @ [l']"
      "log_id l' = currentLogId s" "log_action l' = label a" "log_prompt l' = p"
    using await_method_snoc(1) [OF logs1, of m p] by auto
  have thr: "fst (await_method m p s1) = Some msg"
    using await_method_snoc(3) [OF logs1, of m p] assms(4) ai1 by simp
  define s2 where "s2 = snd (await_method m p s1)"
  have aw: "await_method m p s1 = (Some msg, s2)"
    using thr by (simp add: s2_def prod_eq_iff)
  have run: "executeToolCall actions tc s = executeToolCall_catch a msg s2"
    using assms(1-3) aw
    by (simp add: executeToolCall_def JSON_parse_def args_prompt_def s1_def)
  have logs': "actionLogs (snd (executeToolCall_catch a msg s2)) =
       actionLogs s @ [Object_assign l' \<lparr>upd_status = Some ''Error'', upd_partialResult = None,
         upd_fullResult = None, upd_error = Some msg\<rparr>]"
    using l'(1) by (simp add: executeToolCall_catch_def s2_def updateCurrentLog_snoc)
  have line: "fst (executeToolCall_catch a msg s2) = Inr (cross_mark @ '' '' @ label a @ '': Error - '' @ msg)"
    by (simp add: executeToolCall_catch_def)
  show ?thesis
    using logs' line l'(2-4)
    by (simp add: run Object_assign_def prod_eq_iff split: prod.splits)
qed

theorem executeToolCall_operation_failure_witness:
  "thrown (failing (aiInstance (initial_session 0)) (Some ''foo by bar'')) = Some ''No match''
   \<and> fst (executeToolCall (availableActions example_ai) replaceAll_call (initial_session 0))
       = Inr (cross_mark @ '' Replace All: Error - No match'')
   \<and> log_status (last (actionLogs (snd (executeToolCall (availableActions example_ai)
         replaceAll_call (initial_session 0))))) = ''Error''
   \<and> log_error (last (actionLogs (snd (executeToolCall (availableActions example_ai)
         replaceAll_call (initial_session 0))))) = Some ''No match''
   \<and> executeToolCalls_loop (availableActions example_ai) [replaceAll_call, highlight_call] []
         (initial_session 0) =
       executeToolCalls_loop (availableActions example_ai) [highlight_call]
         [cross_mark @ '' Replace All: Error - No match'']
         (snd (executeToolCall (availableActions example_ai) replaceAll_call (initial_session 0)))"
  using executeToolCall_operation_failure
    [where actions = "availableActions example_ai" and tc = replaceAll_call
       and a = "\<lparr>key = ''replaceAll'', label = ''Replace All'',
           description = ''Replace all occurrences of content in the document with new text'',
           method = Some failing\<rparr>"
       and m = failing and p = "Some ''foo by bar''" and s = "initial_session 0"
       and msg = "''No match''" and rest = "[highlight_call]" and results = "[]"]
    registry_find_replaceAll [of example_ai]
  by (simp add: replaceAll_call_def example_ai_def failing_def)

text \<open>
  C3. A payload that does not parse ends the batch: the invocations before it have
  run and their effects stay, the failing invocation leaves no record, no later
  invocation runs, and the parse error is what \<open>executeToolCalls\<close> and
  \<open>executeToolCallsFromPrompt\<close> throw, in the session reached before the failing
  invocation (so without the completion update).
\<close>

theorem malformed_arguments_abort_batch:
  assumes "executeToolCalls actions before s = (Inr lines, s')"
    and "call_arguments bad = Malformed m"
  shows "executeToolCalls actions (before @ bad # rest) s = (Inl (Error m), s')
    \<and> executeToolCallsFromPrompt actions (before @ bad # rest) originalLogId s = (Inl (Error m), s')"
  using assms
  by (simp add: executeToolCallsFromPrompt_def executeToolCalls_append executeToolCalls_Cons
      executeToolCall_Malformed)

theorem malformed_arguments_abort_batch_witness:
  "executeToolCalls (availableActions example_ai) [highlight_call] (initial_session 0) =
     (Inr [check_mark @ '' Highlight: '' @ dquote @ ''the title'' @ dquote],
      \<lparr>actionLogs =
         [\<lparr>log_id = 0, log_action = ''Highlight'', log_prompt = Some ''the title'',
           log_status = ''Done.'', log_partialResult = Some ''wor'',
           log_fullResult = Some ''work'', log_error = None\<rparr>],
       currentLogId = 1, aiInstance = 1\<rparr>)
   \<and> executeToolCalls (availableActions example_ai)
        ([highlight_call] @ truncated_call # [replace_call]) (initial_session 0) =
     (Inl (Error ''Unexpected end of JSON input''),
      \<lparr>actionLogs =
         [\<lparr>log_id = 0, log_action = ''Highlight'', log_prompt = Some ''the title'',
           log_status = ''Done.'', log_partialResult = Some ''wor'',
           log_fullResult = Some ''work'', log_error = None\<rparr>],
       currentLogId = 1, aiInstance = 1\<rparr>)"
proof -
  have before: "executeToolCalls (availableActions example_ai) [highlight_call] (initial_session 0) =
     (Inr [check_mark @ '' Highlight: '' @ dquote @ ''the title'' @ dquote],
      \<lparr>actionLogs =
         [\<lparr>log_id = 0, log_action = ''Highlight'', log_prompt = Some ''the title'',
           log_status = ''Done.'', log_partialResult = Some ''wor'',
           log_fullResult = Some ''work'', log_error = None\<rparr>],
       currentLogId = 1, aiInstance = 1\<rparr>)"
    by (simp add: executeToolCalls_Cons executeToolCalls_Nil highlight_run initial_session_def)
  have bad: "call_arguments truncated_call = Malformed ''Unexpected end of JSON input''"
    by (simp add: truncated_call_def)
  from malformed_arguments_abort_batch [OF before bad, of "[replace_call]" None] before
  show ?thesis by simp
qed

theorem malformed_arguments_counterexample:
  "executeToolCalls (availableActions example_ai) [truncated_call, replace_call] (initial_session 0)
     = (Inl (Error ''Unexpected end of JSON input''), initial_session 0)
   \<and> fst (executeToolCalls (availableActions example_ai) [replace_call] (initial_session 0))
     = Inr [check_mark @ '' Replace: '' @ dquote @ ''foo by bar'' @ dquote]
   \<and> actionLogs (executeAction
        (example_env (example_reply (Some [truncated_call, replace_call]) None None))
        (availableActions example_ai) ''Tidy up'' (initial_session 0)) =
      [\<lparr>log_id = 0, log_action = ''Open Prompt'', log_prompt = Some ''Tidy up'',
        log_status = ''Error'', log_partialResult = None, log_fullResult = None,
        log_error = Some ''Unexpected end of JSON input''\<rparr>]"
proof -
  have batch: "executeToolCalls (availableActions example_ai) [truncated_call, replace_call] s
     = (Inl (Error ''Unexpected end of JSON input''), s)" for s :: "nat session"
    by (simp add: executeToolCalls_Cons executeToolCall_Malformed truncated_call_def)
  have alone: "fst (executeToolCalls (availableActions example_ai) [replace_call] (initial_session 0))
     = Inr [check_mark @ '' Replace: '' @ dquote @ ''foo by bar'' @ dquote]"
    by (simp add: executeToolCalls_Cons executeToolCalls_Nil replace_run)
  have prompt: "handleOpenPrompt
       (example_env (example_reply (Some [truncated_call, replace_call]) None None))
       p (availableActions example_ai) oid s =
     (Inr (tool_calls_response [truncated_call, replace_call] 2),
      updateCurrentLog \<lparr>upd_status = Some ''Executing 2 function call(s)...'',
         upd_partialResult = None, upd_fullResult = None, upd_error = None\<rparr> s)"
    for p oid and s :: "nat session"
    by (simp add: handleOpenPrompt_def callOpenAI_def example_env_def example_reply_def truthy_def
        first_message_def message_tool_calls_def show_nat.simps updateCurrentLog_def
        Object_assign_def Let_def)
  have turn: "actionLogs (executeAction
        (example_env (example_reply (Some [truncated_call, replace_call]) None None))
        (availableActions example_ai) ''Tidy up'' (initial_session 0)) =
      [\<lparr>log_id = 0, log_action = ''Open Prompt'', log_prompt = Some ''Tidy up'',
        log_status = ''Error'', log_partialResult = None, log_fullResult = None,
        log_error = Some ''Unexpected end of JSON input''\<rparr>]"
    by (simp add: executeAction_def white_space_def prompt executeToolCallsFromPrompt_def batch
        addActionLog_def initial_session_def updateCurrentLog_def Object_assign_def Let_def)
  from batch [of "initial_session 0"] alone turn show ?thesis by simp
qed

section \<open>Unresolved names\<close>

text \<open>
  In a batch whose payloads all parse to a value other than \<open>null\<close>, every
  invocation appends exactly one record and afterwards writes on that record only,
  so the records made earlier, in the batch or before it, stay as they are.
\<close>

lemma parses_to_value_completes: "parses_to_value tc \<Longrightarrow> completes actions tc"
  by (auto simp: parses_to_value_def completes_def split: payload.splits args.splits)

lemma findIndex_Some:
  "findIndex P xs = Some i \<Longrightarrow> i < length xs \<and> P (xs ! i)"
proof (induction xs arbitrary: i)
  case Nil
  then show ?case by simp
next
  case (Cons x xs)
  then show ?case by (cases "P x") auto
qed

lemma updateOriginalLog_length [simp]:
  "length (updateOriginalLog oid logs n) = length logs"
  by (simp add: updateOriginalLog_def split: option.splits)

lemma updateOriginalLog_other:
  assumes "Some (log_id (logs ! k)) \<noteq> oid"
  shows "updateOriginalLog oid logs n ! k = logs ! k"
proof (cases "findIndex (\<lambda>l. Some (log_id l) = oid) logs")
  case None
  then show ?thesis by (simp add: updateOriginalLog_def)
next
  case (Some i)
  from findIndex_Some [OF Some] assms have "i \<noteq> k" by auto
  with Some show ?thesis by (simp add: updateOriginalLog_def)
qed

lemma executeToolCall_appends:
  assumes "call_arguments tc = WellFormed (Args p)"
  shows "\<exists>line l. fst (executeToolCall actions tc t) = Inr line
      \<and> actionLogs (snd (executeToolCall actions tc t)) = actionLogs t @ [l]
      \<and> log_id l = currentLogId t
      \<and> currentLogId (snd (executeToolCall actions tc t)) = Suc (currentLogId t)"
proof (cases "resolves actions tc")
  case False
  from executeToolCall_not_found [OF False assms, of t] show ?thesis by simp
next
  case True
  then obtain a m where a: "find (\<lambda>a. key a = call_name tc) actions = Some a"
    and m: "method a = Some m"
    by (auto simp: resolves_def split: option.splits)
  define t1 where "t1 = addActionLog (label a) p t"
  have logs1: "actionLogs t1 = actionLogs t @
      [\<lparr>log_id = currentLogId t, log_action = label a, log_prompt = p,
        log_status = ''Starting...'', log_partialResult = None,
        log_fullResult = None, log_error = None\<rparr>]"
    by (simp add: t1_def addActionLog_def)
  have cnt1: "currentLogId t1 = Suc (currentLogId t)"
    by (simp add: t1_def addActionLog_def)
  obtain l' where l': "actionLogs (snd (await_method m p t1)) = actionLogs t @ [l']"
      "log_id l' = currentLogId t"
    using await_method_snoc(1) [OF logs1, of m p] by auto
  have cnt2: "currentLogId (snd (await_method m p t1)) = Suc (currentLogId t)"
    using await_method_snoc(2) [OF logs1, of m p] cnt1 by simp
  obtain x t2 where aw: "await_method m p t1 = (x, t2)" by (cases "await_method m p t1")
  with l' cnt2 have t2: "actionLogs t2 = actionLogs t @ [l']" "currentLogId t2 = Suc (currentLogId t)"
    by simp_all
  show ?thesis
    using a m assms aw t2 l'(2)
    by (cases x)
       (simp_all add: executeToolCall_def executeToolCall_catch_def JSON_parse_def args_prompt_def
          t1_def [symmetric] updateCurrentLog_snoc)
qed

lemma executeToolCalls_appends:
  "list_all parses_to_value tcs \<Longrightarrow>
     \<exists>lines ls. fst (executeToolCalls actions tcs t) = Inr lines
       \<and> actionLogs (snd (executeToolCalls actions tcs t)) = actionLogs t @ ls
       \<and> length ls = length tcs
       \<and> currentLogId (snd (executeToolCalls actions tcs t)) = currentLogId t + length tcs"
proof (induction tcs arbitrary: t)
  case Nil
  show ?case by (simp add: executeToolCalls_Nil)
next
  case (Cons tc tcs)
  from Cons.prems obtain p where p: "call_arguments tc = WellFormed (Args p)"
    by (auto simp: parses_to_value_def split: payload.splits args.splits)
  from executeToolCall_appends [OF p, of actions t] obtain line l where
    one: "fst (executeToolCall actions tc t) = Inr line"
      "actionLogs (snd (executeToolCall actions tc t)) = actionLogs t @ [l]"
      "currentLogId (snd (executeToolCall actions tc t)) = Suc (currentLogId t)"
    by blast
  from Cons.prems have "list_all parses_to_value tcs" by simp
  from Cons.IH [OF this, of "snd (executeToolCall actions tc t)"] obtain lines ls where
    rest: "fst (executeToolCalls actions tcs (snd (executeToolCall actions tc t))) = Inr lines"
      "actionLogs (snd (executeToolCalls actions tcs (snd (executeToolCall actions tc t))))
         = actionLogs (snd (executeToolCall actions tc t)) @ ls"
      "length ls = length tcs"
      "currentLogId (snd (executeToolCalls actions tcs (snd (executeToolCall actions tc t))))
         = currentLogId (snd (executeToolCall actions tc t)) + length tcs"
    by blast
  show ?case
    using one rest
    by (cases "executeToolCall actions tc t";
        cases "executeToolCalls actions tcs (snd (executeToolCall actions tc t))")
       (auto simp: executeToolCalls_Cons)
qed

lemma executeToolCalls_split:
  assumes "list_all parses_to_value xs"
  shows "snd (executeToolCalls actions (xs @ ys) t) =
     snd (executeToolCalls actions ys (snd (executeToolCalls actions xs t)))"
proof -
  from executeToolCalls_appends [OF assms, of actions t] obtain lines where
    "fst (executeToolCalls actions xs t) = Inr lines" by blast
  then show ?thesis
    by (cases "executeToolCalls actions xs t")
       (auto simp: executeToolCalls_append split: prod.splits sum.splits)
qed

text \<open>
  Lines and records of a batch whose invocations all return a line, stated for the
  session reached right after each invocation.
\<close>

lemma batch_lines_and_records:
  assumes "list_all (completes actions) tcs"
  shows "\<exists>lines s'. executeToolCalls actions tcs s = (Inr lines, s')
    \<and> length lines = length tcs
    \<and> (\<forall>i<length tcs.
          fst (executeToolCall actions (tcs ! i) (snd (executeToolCalls actions (take i tcs) s)))
            = Inr (lines ! i)
        \<and> snd (executeToolCall actions (tcs ! i) (snd (executeToolCalls actions (take i tcs) s)))
            = snd (executeToolCalls actions (take (Suc i) tcs) s))
    \<and> (\<forall>i<length tcs. \<not> resolves actions (tcs ! i) \<longrightarrow>
          lines ! i = cross_mark @ '' '' @ call_name (tcs ! i) @ '': Tool not found''
        \<and> (\<exists>p. actionLogs (snd (executeToolCalls actions (take (Suc i) tcs) s)) =
              actionLogs (snd (executeToolCalls actions (take i tcs) s)) @
                [\<lparr>log_id = currentLogId (snd (executeToolCalls actions (take i tcs) s)),
                  log_action = call_name (tcs ! i), log_prompt = p,
                  log_status = ''Error'', log_partialResult = None, log_fullResult = None,
                  log_error = Some ''Tool not found''\<rparr>]))"
  using assms
proof (induction tcs rule: rev_induct)
  case Nil
  show ?case by (simp add: executeToolCalls_Nil)
next
  case (snoc tc tcs)
  from snoc.prems have all: "list_all (completes actions) tcs" and tc: "completes actions tc"
    by simp_all
  from snoc.IH [OF all] obtain lines s' where
    run: "executeToolCalls actions tcs s = (Inr lines, s')" and
    len: "length lines = length tcs" and
    each: "\<forall>i<length tcs.
          fst (executeToolCall actions (tcs ! i) (snd (executeToolCalls actions (take i tcs) s)))
            = Inr (lines ! i)
        \<and> snd (executeToolCall actions (tcs ! i) (snd (executeToolCalls actions (take i tcs) s)))
            = snd (executeToolCalls actions (take (Suc i) tcs) s)" and
    miss: "\<forall>i<length tcs. \<not> resolves actions (tcs ! i) \<longrightarrow>
          lines ! i = cross_mark @ '' '' @ call_name (tcs ! i) @ '': Tool not found''
        \<and> (\<exists>p. actionLogs (snd (executeToolCalls actions (take (Suc i) tcs) s)) =
              actionLogs (snd (executeToolCalls actions (take i tcs) s)) @
                [\<lparr>log_id = currentLogId (snd (executeToolCalls actions (take i tcs) s)),
                  log_action = call_name (tcs ! i), log_prompt = p,
                  log_status = ''Error'', log_partialResult = None, log_fullResult = None,
                  log_error = Some ''Tool not found''\<rparr>])"
    by blast
  from tc obtain line where line: "fst (executeToolCall actions tc s') = Inr line"
    using executeToolCall_completes [of actions tc s'] by blast
  define s'' where "s'' = snd (executeToolCall actions tc s')"
  have one: "executeToolCall actions tc s' = (Inr line, s'')"
    using line by (simp add: s''_def prod_eq_iff)
  have whole: "executeToolCalls actions (tcs @ [tc]) s = (Inr (lines @ [line]), s'')"
    by (simp add: executeToolCalls_append run executeToolCalls_Cons one executeToolCalls_Nil)
  have last_miss: "\<not> resolves actions tc \<Longrightarrow>
      line = cross_mark @ '' '' @ call_name tc @ '': Tool not found''
      \<and> (\<exists>p. actionLogs s'' = actionLogs s' @
            [\<lparr>log_id = currentLogId s', log_action = call_name tc, log_prompt = p,
              log_status = ''Error'', log_partialResult = None, log_fullResult = None,
              log_error = Some ''Tool not found''\<rparr>])"
  proof -
    assume nr: "\<not> resolves actions tc"
    with tc obtain p where p: "call_arguments tc = WellFormed (Args p)"
      by (auto simp: completes_def split: payload.splits args.splits)
    from executeToolCall_not_found [OF nr p, of s'] one show ?thesis by auto
  qed
  have A: "\<forall>i<length (tcs @ [tc]).
          fst (executeToolCall actions ((tcs @ [tc]) ! i)
                (snd (executeToolCalls actions (take i (tcs @ [tc])) s)))
            = Inr ((lines @ [line]) ! i)
        \<and> snd (executeToolCall actions ((tcs @ [tc]) ! i)
                (snd (executeToolCalls actions (take i (tcs @ [tc])) s)))
            = snd (executeToolCalls actions (take (Suc i) (tcs @ [tc])) s)"
  proof (intro allI impI)
    fix i assume "i < length (tcs @ [tc])"
    then consider "i < length tcs" | "i = length tcs" by fastforce
    then show "fst (executeToolCall actions ((tcs @ [tc]) ! i)
                (snd (executeToolCalls actions (take i (tcs @ [tc])) s)))
            = Inr ((lines @ [line]) ! i)
        \<and> snd (executeToolCall actions ((tcs @ [tc]) ! i)
                (snd (executeToolCalls actions (take i (tcs @ [tc])) s)))
            = snd (executeToolCalls actions (take (Suc i) (tcs @ [tc])) s)"
    proof cases
      case 1
      then show ?thesis using each len by (simp add: nth_append)
    next
      case 2
      then show ?thesis using run one whole len by (simp add: nth_append)
    qed
  qed
  have B: "\<forall>i<length (tcs @ [tc]). \<not> resolves actions ((tcs @ [tc]) ! i) \<longrightarrow>
          (lines @ [line]) ! i = cross_mark @ '' '' @ call_name ((tcs @ [tc]) ! i) @ '': Tool not found''
        \<and> (\<exists>p. actionLogs (snd (executeToolCalls actions (take (Suc i) (tcs @ [tc])) s)) =
              actionLogs (snd (executeToolCalls actions (take i (tcs @ [tc])) s)) @
                [\<lparr>log_id = currentLogId (snd (executeToolCalls actions (take i (tcs @ [tc])) s)),
                  log_action = call_name ((tcs @ [tc]) ! i), log_prompt = p,
                  log_status = ''Error'', log_partialResult = None, log_fullResult = None,
                  log_error = Some ''Tool not found''\<rparr>])"
  proof (intro allI impI)
    fix i assume i: "i < length (tcs @ [tc])" and nr: "\<not> resolves actions ((tcs @ [tc]) ! i)"
    from i consider "i < length tcs" | "i = length tcs" by fastforce
    then show "(lines @ [line]) ! i = cross_mark @ '' '' @ call_name ((tcs @ [tc]) ! i) @ '': Tool not found''
        \<and> (\<exists>p. actionLogs (snd (executeToolCalls actions (take (Suc i) (tcs @ [tc])) s)) =
              actionLogs (snd (executeToolCalls actions (take i (tcs @ [tc])) s)) @
                [\<lparr>log_id = currentLogId (snd (executeToolCalls actions (take i (tcs @ [tc])) s)),
                  log_action = call_name ((tcs @ [tc]) ! i), log_prompt = p,
                  log_status = ''Error'', log_partialResult = None, log_fullResult = None,
                  log_error = Some ''Tool not found''\<rparr>])"
    proof cases
      case 1
      then show ?thesis using miss nr len by (simp add: nth_append)
    next
      case 2
      then show ?thesis using last_miss nr run whole len by (simp add: nth_append)
    qed
  qed
  show ?case using whole len A B by simp
qed

lemma unresolved_record_stays:
  assumes all: "list_all parses_to_value tcs"
    and oid: "originalLogId = None \<or> (\<exists>j. originalLogId = Some j \<and> j < currentLogId s)"
    and i: "i < length tcs"
    and miss: "\<not> resolves actions (tcs ! i)"
  shows "length (actionLogs (snd (executeToolCalls actions (take i tcs) s))) = length (actionLogs s) + i
    \<and> (\<exists>p. call_arguments (tcs ! i) = WellFormed (Args p)
         \<and> actionLogs (snd (executeToolCalls actions tcs s)) ! (length (actionLogs s) + i) =
             \<lparr>log_id = currentLogId s + i, log_action = call_name (tcs ! i), log_prompt = p,
              log_status = ''Error'', log_partialResult = None, log_fullResult = None,
              log_error = Some ''Tool not found''\<rparr>
         \<and> actionLogs (snd (executeToolCallsFromPrompt actions tcs originalLogId s))
               ! (length (actionLogs s) + i) =
             \<lparr>log_id = currentLogId s + i, log_action = call_name (tcs ! i), log_prompt = p,
              log_status = ''Error'', log_partialResult = None, log_fullResult = None,
              log_error = Some ''Tool not found''\<rparr>)"
proof -
  define xs where "xs = take i tcs"
  define ys where "ys = drop (Suc i) tcs"
  define tc where "tc = tcs ! i"
  have tcs: "tcs = xs @ [tc] @ ys"
    using i by (simp add: xs_def ys_def tc_def id_take_nth_drop)
  have lenxs: "length xs = i" using i by (simp add: xs_def)
  from all tcs have pxs: "list_all parses_to_value xs" and ptc: "parses_to_value tc"
    and pys: "list_all parses_to_value ys"
    by simp_all
  define si where "si = snd (executeToolCalls actions xs s)"
  from executeToolCalls_appends [OF pxs, of actions s] lenxs obtain ls where
    si: "actionLogs si = actionLogs s @ ls" "length ls = i" "currentLogId si = currentLogId s + i"
    by (auto simp: si_def)
  from ptc obtain p where p: "call_arguments tc = WellFormed (Args p)"
    by (auto simp: parses_to_value_def split: payload.splits args.splits)
  define r where "r = \<lparr>log_id = currentLogId s + i, log_action = call_name tc, log_prompt = p,
              log_status = ''Error'', log_partialResult = None, log_fullResult = None,
              log_error = Some ''Tool not found''\<rparr>"
  from miss have miss': "\<not> resolves actions tc" by (simp add: tc_def)
  have one: "actionLogs (snd (executeToolCalls actions [tc] si)) = actionLogs s @ ls @ [r]"
    using executeToolCall_not_found [OF miss' p, of si] si
    by (simp add: executeToolCalls_Cons executeToolCalls_Nil r_def)
  have ptc1: "list_all parses_to_value [tc]" using ptc by simp
  have "snd (executeToolCalls actions tcs s) =
      snd (executeToolCalls actions ys (snd (executeToolCalls actions [tc] si)))"
    unfolding tcs si_def
    by (simp only: executeToolCalls_split [OF pxs] executeToolCalls_split [OF ptc1])
  with executeToolCalls_appends [OF pys, of actions "snd (executeToolCalls actions [tc] si)"] one
  obtain ls' where final: "actionLogs (snd (executeToolCalls actions tcs s)) = actionLogs s @ ls @ [r] @ ls'"
    by auto
  have at: "actionLogs (snd (executeToolCalls actions tcs s)) ! (length (actionLogs s) + i) = r"
    using si(2) by (simp add: final nth_append)
  have other: "Some (log_id (actionLogs (snd (executeToolCalls actions tcs s)) ! (length (actionLogs s) + i)))
      \<noteq> originalLogId"
    using oid by (auto simp: at r_def)
  from executeToolCalls_appends [OF all, of actions s] obtain lines where
    "fst (executeToolCalls actions tcs s) = Inr lines" by blast
  then have fp: "actionLogs (snd (executeToolCallsFromPrompt actions tcs originalLogId s)) =
      updateOriginalLog originalLogId (actionLogs (snd (executeToolCalls actions tcs s))) (length tcs)"
    by (cases "executeToolCalls actions tcs s") (simp add: executeToolCallsFromPrompt_def)
  have at': "actionLogs (snd (executeToolCallsFromPrompt actions tcs originalLogId s))
               ! (length (actionLogs s) + i) = r"
    by (simp add: fp updateOriginalLog_other [OF other] at)
  from si(1,2) p at at' show ?thesis
    by (auto simp: si_def xs_def tc_def r_def)
qed

text \<open>
  C2. For a batch in which every payload parses to a value other than \<open>null\<close>:
  \<open>executeToolCalls\<close> returns as many result lines as there are invocations, and
  the summary of \<open>executeToolCallsFromPrompt\<close> joins them; line \<open>i\<close> is the
  result of invocation \<open>i\<close>, run in the session the first \<open>i\<close> invocations left;
  every invocation adds one record to the log and the records that were there stay.
  For every invocation whose name does not resolve, the line is the cross mark, the
  name and \<open>: Tool not found\<close>; its record is new (at a position the log did not
  have before the invocation), and at the end of the batch, and still after the
  completion update for a turn whose record was made before the batch, that record
  has the name as action, status \<open>Error\<close> and error \<open>Tool not found\<close>.
\<close>

theorem executeToolCalls_with_unresolved:
  assumes "list_all parses_to_value tcs"
    and "originalLogId = None \<or> (\<exists>j. originalLogId = Some j \<and> j < currentLogId s)"
  shows "\<exists>lines s'. executeToolCalls actions tcs s = (Inr lines, s')
    \<and> length lines = length tcs
    \<and> fst (executeToolCallsFromPrompt actions tcs originalLogId s) =
         Inr (''Function calls executed:'' @ newline @ join newline lines)
    \<and> (\<forall>i<length tcs.
          fst (executeToolCall actions (tcs ! i) (snd (executeToolCalls actions (take i tcs) s)))
            = Inr (lines ! i))
    \<and> length (actionLogs s') = length (actionLogs s) + length tcs
    \<and> take (length (actionLogs s)) (actionLogs s') = actionLogs s
    \<and> (\<forall>i<length tcs. \<not> resolves actions (tcs ! i) \<longrightarrow>
          lines ! i = cross_mark @ '' '' @ call_name (tcs ! i) @ '': Tool not found''
        \<and> length (actionLogs (snd (executeToolCalls actions (take i tcs) s)))
            = length (actionLogs s) + i
        \<and> (\<exists>p. call_arguments (tcs ! i) = WellFormed (Args p)
             \<and> actionLogs s' ! (length (actionLogs s) + i) =
                 \<lparr>log_id = currentLogId s + i, log_action = call_name (tcs ! i), log_prompt = p,
                  log_status = ''Error'', log_partialResult = None, log_fullResult = None,
                  log_error = Some ''Tool not found''\<rparr>
             \<and> actionLogs (snd (executeToolCallsFromPrompt actions tcs originalLogId s))
                   ! (length (actionLogs s) + i) =
                 \<lparr>log_id = currentLogId s + i, log_action = call_name (tcs ! i), log_prompt = p,
                  log_status = ''Error'', log_partialResult = None, log_fullResult = None,
                  log_error = Some ''Tool not found''\<rparr>))"
proof -
  from assms(1) have comp: "list_all (completes actions) tcs"
    by (induction tcs) (simp_all add: parses_to_value_completes)
  from batch_lines_and_records [OF comp, of s] obtain lines s' where
    run: "executeToolCalls actions tcs s = (Inr lines, s')" and
    len: "length lines = length tcs" and
    each: "\<forall>i<length tcs.
          fst (executeToolCall actions (tcs ! i) (snd (executeToolCalls actions (take i tcs) s)))
            = Inr (lines ! i)
        \<and> snd (executeToolCall actions (tcs ! i) (snd (executeToolCalls actions (take i tcs) s)))
            = snd (executeToolCalls actions (take (Suc i) tcs) s)" and
    line: "\<forall>i<length tcs. \<not> resolves actions (tcs ! i) \<longrightarrow>
          lines ! i = cross_mark @ '' '' @ call_name (tcs ! i) @ '': Tool not found''
        \<and> (\<exists>p. actionLogs (snd (executeToolCalls actions (take (Suc i) tcs) s)) =
              actionLogs (snd (executeToolCalls actions (take i tcs) s)) @
                [\<lparr>log_id = currentLogId (snd (executeToolCalls actions (take i tcs) s)),
                  log_action = call_name (tcs ! i), log_prompt = p,
                  log_status = ''Error'', log_partialResult = None, log_fullResult = None,
                  log_error = Some ''Tool not found''\<rparr>])"
    by blast
  from executeToolCalls_appends [OF assms(1), of actions s] run obtain ls where
    logs: "actionLogs s' = actionLogs s @ ls" "length ls = length tcs"
    by auto
  have summary: "fst (executeToolCallsFromPrompt actions tcs originalLogId s) =
         Inr (''Function calls executed:'' @ newline @ join newline lines)"
    by (simp add: executeToolCallsFromPrompt_def run)
  have stays: "\<forall>i<length tcs. \<not> resolves actions (tcs ! i) \<longrightarrow>
          lines ! i = cross_mark @ '' '' @ call_name (tcs ! i) @ '': Tool not found''
        \<and> length (actionLogs (snd (executeToolCalls actions (take i tcs) s)))
            = length (actionLogs s) + i
        \<and> (\<exists>p. call_arguments (tcs ! i) = WellFormed (Args p)
             \<and> actionLogs s' ! (length (actionLogs s) + i) =
                 \<lparr>log_id = currentLogId s + i, log_action = call_name (tcs ! i), log_prompt = p,
                  log_status = ''Error'', log_partialResult = None, log_fullResult = None,
                  log_error = Some ''Tool not found''\<rparr>
             \<and> actionLogs (snd (executeToolCallsFromPrompt actions tcs originalLogId s))
                   ! (length (actionLogs s) + i) =
                 \<lparr>log_id = currentLogId s + i, log_action = call_name (tcs ! i), log_prompt = p,
                  log_status = ''Error'', log_partialResult = None, log_fullResult = None,
                  log_error = Some ''Tool not found''\<rparr>)"
  proof (intro allI impI)
    fix i assume i: "i < length tcs" and miss: "\<not> resolves actions (tcs ! i)"
    from line i miss have l: "lines ! i = cross_mark @ '' '' @ call_name (tcs ! i) @ '': Tool not found''"
      by blast
    from unresolved_record_stays [OF assms i miss] run l
    show "lines ! i = cross_mark @ '' '' @ call_name (tcs ! i) @ '': Tool not found''
        \<and> length (actionLogs (snd (executeToolCalls actions (take i tcs) s)))
            = length (actionLogs s) + i
        \<and> (\<exists>p. call_arguments (tcs ! i) = WellFormed (Args p)
             \<and> actionLogs s' ! (length (actionLogs s) + i) =
                 \<lparr>log_id = currentLogId s + i, log_action = call_name (tcs ! i), log_prompt = p,
                  log_status = ''Error'', log_partialResult = None, log_fullResult = None,
                  log_error = Some ''Tool not found''\<rparr>
             \<and> actionLogs (snd (executeToolCallsFromPrompt actions tcs originalLogId s))
                   ! (length (actionLogs s) + i) =
                 \<lparr>log_id = currentLogId s + i, log_action = call_name (tcs ! i), log_prompt = p,
                  log_status = ''Error'', log_partialResult = None, log_fullResult = None,
                  log_error = Some ''Tool not found''\<rparr>)"
      by simp
  qed
  from run len summary each logs stays show ?thesis by simp
qed

theorem executeToolCalls_with_unresolved_witness:
  "list_all parses_to_value [translate_call, highlight_call]
   \<and> \<not> resolves (availableActions example_ai) translate_call
   \<and> 0 < currentLogId (addActionLog ''Open Prompt'' (Some ''Tidy up'') (initial_session (0::nat)))
   \<and> (\<exists>lines s'.
        executeToolCalls (availableActions example_ai) [translate_call, highlight_call]
          (addActionLog ''Open Prompt'' (Some ''Tidy up'') (initial_session 0)) = (Inr lines, s')
        \<and> length lines = 2
        \<and> lines ! 0 = cross_mark @ '' translate: Tool not found''
        \<and> length (actionLogs s') = 3
        \<and> actionLogs s' ! 1 =
            \<lparr>log_id = 1, log_action = ''translate'', log_prompt = Some ''to French'',
             log_status = ''Error'', log_partialResult = None, log_fullResult = None,
             log_error = Some ''Tool not found''\<rparr>)
   \<and> actionLogs (snd (executeToolCallsFromPrompt (availableActions example_ai)
        [translate_call, highlight_call] (Some 0)
        (addActionLog ''Open Prompt'' (Some ''Tidy up'') (initial_session 0)))) ! 1 =
       \<lparr>log_id = 1, log_action = ''translate'', log_prompt = Some ''to French'',
        log_status = ''Error'', log_partialResult = None, log_fullResult = None,
        log_error = Some ''Tool not found''\<rparr>"
proof -
  define S :: "nat session" where
    "S = addActionLog ''Open Prompt'' (Some ''Tidy up'') (initial_session 0)"
  have S: "length (actionLogs S) = 1" "currentLogId S = 1"
    by (simp_all add: S_def addActionLog_def initial_session_def)
  have all: "list_all parses_to_value [translate_call, highlight_call]"
    by (simp add: parses_to_value_def translate_call_def highlight_call_def)
  have miss: "\<not> resolves (availableActions example_ai) translate_call"
    by (simp add: resolves_def translate_call_def registry_find_translate)
  have oid: "Some 0 = None \<or> (\<exists>j. Some 0 = Some j \<and> j < currentLogId S)"
    using S by simp
  have args: "call_arguments translate_call = WellFormed (Args p) \<longleftrightarrow> p = Some ''to French''" for p
    by (auto simp: translate_call_def)
  from executeToolCalls_with_unresolved [OF all oid, of "availableActions example_ai"]
  obtain lines s' where
    run: "executeToolCalls (availableActions example_ai) [translate_call, highlight_call] S
            = (Inr lines, s')" and
    len: "length lines = length [translate_call, highlight_call]" and
    logs: "length (actionLogs s') = length (actionLogs S) + length [translate_call, highlight_call]" and
    unresolved: "\<forall>i<length [translate_call, highlight_call].
        \<not> resolves (availableActions example_ai) ([translate_call, highlight_call] ! i) \<longrightarrow>
          lines ! i = cross_mark @ '' '' @ call_name ([translate_call, highlight_call] ! i)
            @ '': Tool not found''
        \<and> length (actionLogs (snd (executeToolCalls (availableActions example_ai)
              (take i [translate_call, highlight_call]) S))) = length (actionLogs S) + i
        \<and> (\<exists>p. call_arguments ([translate_call, highlight_call] ! i) = WellFormed (Args p)
             \<and> actionLogs s' ! (length (actionLogs S) + i) =
                 \<lparr>log_id = currentLogId S + i,
                  log_action = call_name ([translate_call, highlight_call] ! i), log_prompt = p,
                  log_status = ''Error'', log_partialResult = None, log_fullResult = None,
                  log_error = Some ''Tool not found''\<rparr>
             \<and> actionLogs (snd (executeToolCallsFromPrompt (availableActions example_ai)
                    [translate_call, highlight_call] (Some 0) S)) ! (length (actionLogs S) + i) =
                 \<lparr>log_id = currentLogId S + i,
                  log_action = call_name ([translate_call, highlight_call] ! i), log_prompt = p,
                  log_status = ''Error'', log_partialResult = None, log_fullResult = None,
                  log_error = Some ''Tool not found''\<rparr>)"
    by blast
  from unresolved miss have first:
    "lines ! 0 = cross_mark @ '' '' @ call_name translate_call @ '': Tool not found''
     \<and> (\<exists>p. call_arguments translate_call = WellFormed (Args p)
          \<and> actionLogs s' ! (length (actionLogs S) + 0) =
              \<lparr>log_id = currentLogId S + 0, log_action = call_name translate_call, log_prompt = p,
               log_status = ''Error'', log_partialResult = None, log_fullResult = None,
               log_error = Some ''Tool not found''\<rparr>
          \<and> actionLogs (snd (executeToolCallsFromPrompt (availableActions example_ai)
                 [translate_call, highlight_call] (Some 0) S)) ! (length (actionLogs S) + 0) =
              \<lparr>log_id = currentLogId S + 0, log_action = call_name translate_call, log_prompt = p,
               log_status = ''Error'', log_partialResult = None, log_fullResult = None,
               log_error = Some ''Tool not found''\<rparr>)"
    by auto
  then have line: "lines ! 0 = cross_mark @ '' translate: Tool not found''"
    and rec: "actionLogs s' ! 1 =
            \<lparr>log_id = 1, log_action = ''translate'', log_prompt = Some ''to French'',
             log_status = ''Error'', log_partialResult = None, log_fullResult = None,
             log_error = Some ''Tool not found''\<rparr>"
    and rec': "actionLogs (snd (executeToolCallsFromPrompt (availableActions example_ai)
                 [translate_call, highlight_call] (Some 0) S)) ! 1 =
            \<lparr>log_id = 1, log_action = ''translate'', log_prompt = Some ''to French'',
             log_status = ''Error'', log_partialResult = None, log_fullResult = None,
             log_error = Some ''Tool not found''\<rparr>"
    using S by (auto simp: args) (simp_all add: translate_call_def)
  from all miss S run len logs line rec rec' show ?thesis
    unfolding S_def [symmetric] by auto
qed

text \<open>
  Two batches with an unresolved name. In the first its payload is \<open>null\<close>: the
  batch throws, with no line, no record, and the second invocation not run. In the
  second the unresolved invocation is followed by a resolved one whose payload is
  \<open>null\<close>: the batch returns, but the record of the unresolved invocation ends with
  the message of the \<open>TypeError\<close> in its error field.
\<close>

theorem unresolved_null_arguments_counterexample:
  "\<not> resolves (availableActions example_ai) translate_null_call
   \<and> executeToolCalls (availableActions example_ai) [translate_null_call, highlight_call]
       (initial_session 0) = (Inl (Error null_prompt_message), initial_session 0)
   \<and> \<not> resolves (availableActions example_ai) translate_call
   \<and> actionLogs (snd (executeToolCalls (availableActions example_ai)
        [translate_call, highlight_null_call] (initial_session 0))) =
       [\<lparr>log_id = 0, log_action = ''translate'', log_prompt = Some ''to French'',
         log_status = ''Error'', log_partialResult = None, log_fullResult = None,
         log_error = Some null_prompt_message\<rparr>]"
proof -
  have miss: "\<not> resolves (availableActions example_ai) translate_call"
    by (simp add: resolves_def translate_call_def registry_find_translate)
  have args: "call_arguments translate_call = WellFormed (Args (Some ''to French''))"
    by (simp add: translate_call_def)
  have name: "call_name translate_call = ''translate''"
    by (simp add: translate_call_def)
  have null: "executeToolCall (availableActions example_ai) highlight_null_call t =
      executeToolCall_catch
        \<lparr>key = ''highlight'', label = ''Highlight'',
          description = ''Highlight specific text or sections in the document with optional color'',
          method = Some (ai_highlight example_ai)\<rparr>
        null_prompt_message t" for t :: "nat session"
    by (simp add: executeToolCall_def highlight_null_call_def registry_find_highlight
        JSON_parse_def args_prompt_def)
  have later: "actionLogs (snd (executeToolCalls (availableActions example_ai)
        [translate_call, highlight_null_call] (initial_session 0))) =
       [\<lparr>log_id = 0, log_action = ''translate'', log_prompt = Some ''to French'',
         log_status = ''Error'', log_partialResult = None, log_fullResult = None,
         log_error = Some null_prompt_message\<rparr>]"
    by (simp add: executeToolCalls_Cons executeToolCalls_Nil
        executeToolCall_not_found [OF miss args] null executeToolCall_catch_def
        updateCurrentLog_def Object_assign_def initial_session_def name)
  have abort: "\<not> resolves (availableActions example_ai) translate_null_call
   \<and> executeToolCalls (availableActions example_ai) [translate_null_call, highlight_call]
       (initial_session 0) = (Inl (Error null_prompt_message), initial_session 0)"
    by (simp add: resolves_def executeToolCalls_Cons executeToolCall_def translate_null_call_def
        registry_find_translate JSON_parse_def args_prompt_def)
  from abort miss later show ?thesis by simp
qed

section \<open>The completion endpoint\<close>

text \<open>
  C5. \<open>callOpenAI\<close> with no endpoint address configured throws the configuration
  error and makes no network call; when the response is not \<open>ok\<close> it throws an
  error whose message ends with the decimal status; when the response is \<open>ok\<close>
  its outcome is that of decoding the body, and \<open>callOpenAI\<close> adds no error of its own.
\<close>

theorem callOpenAI_failures:
  "(\<not> truthy (VITE_PROXY_URL e) \<longrightarrow>
      callOpenAI e prompt tls = (Inl (Error ''VITE_PROXY_URL not configured''), []))
   \<and> (truthy (VITE_PROXY_URL e)
        \<and> fetch e (the (VITE_PROXY_URL e)) (completion_request prompt tls) = Inr r \<and> \<not> ok r \<longrightarrow>
      fst (callOpenAI e prompt tls) =
        Inl (Error (''HTTP error! status: '' @ show_nat (status r))))
   \<and> (truthy (VITE_PROXY_URL e)
        \<and> fetch e (the (VITE_PROXY_URL e)) (completion_request prompt tls) = Inr r \<and> ok r \<longrightarrow>
      fst (callOpenAI e prompt tls) = json r)"
  by (simp add: callOpenAI_def Let_def)

theorem callOpenAI_failures_witness:
  "callOpenAI ((example_env (example_reply None None None))\<lparr>VITE_PROXY_URL := None\<rparr>) ''Hi'' []
     = (Inl (Error ''VITE_PROXY_URL not configured''), [])
   \<and> callOpenAI ((example_env (example_reply None None None))\<lparr>VITE_PROXY_URL := Some []\<rparr>) ''Hi'' []
     = (Inl (Error ''VITE_PROXY_URL not configured''), [])
   \<and> fst (callOpenAI (example_env \<lparr>ok = False, status = 503, json = Inl (Error ''Unexpected token'')\<rparr>)
          ''Hi'' []) = Inl (Error ''HTTP error! status: 503'')
   \<and> fst (callOpenAI (example_env (example_reply None None (Some ''Hello''))) ''Hi'' [])
     = Inr \<lparr>choices = Some [\<lparr>choice_message = Some \<lparr>content = None, tool_calls = None\<rparr>\<rparr>],
            data_content = Some ''Hello''\<rparr>"
  using
    callOpenAI_failures [of "(example_env (example_reply None None None))\<lparr>VITE_PROXY_URL := None\<rparr>"
      "''Hi''" "[]"]
    callOpenAI_failures [of "(example_env (example_reply None None None))\<lparr>VITE_PROXY_URL := Some []\<rparr>"
      "''Hi''" "[]"]
    callOpenAI_failures [of "example_env \<lparr>ok = False, status = 503, json = Inl (Error ''Unexpected token'')\<rparr>"
      "''Hi''" "[]" "\<lparr>ok = False, status = 503, json = Inl (Error ''Unexpected token'')\<rparr>"]
    callOpenAI_failures [of "example_env (example_reply None None (Some ''Hello''))"
      "''Hi''" "[]" "example_reply None None (Some ''Hello'')"]
  by (simp add: example_env_def example_reply_def truthy_def show_nat.simps)

text \<open>
  C6. When the decoded reply's first message requests no invocation, the content
  \<open>handleOpenPrompt\<close> returns is the message's content if that is a non-empty
  string, else the reply's top-level content if that is a non-empty string, else
  the serialized reply; so it is empty only if the serialization is.
\<close>

theorem handleOpenPrompt_text_fallback:
  assumes "fst (callOpenAI e prompt (buildToolsArray actions)) = Inr d"
    and "message_tool_calls (first_message d) = None \<or> message_tool_calls (first_message d) = Some []"
  shows "fst (handleOpenPrompt e prompt actions originalLogId s) =
           Inr (text_response
             (case message_content (first_message d) of
                Some (x # xs) \<Rightarrow> x # xs
              | _ \<Rightarrow> (case data_content d of
                        Some (y # ys) \<Rightarrow> y # ys
                      | _ \<Rightarrow> JSON_stringify e d)))
         \<and> (JSON_stringify e d \<noteq> [] \<longrightarrow>
              fst (handleOpenPrompt e prompt actions originalLogId s) \<noteq> Inr (text_response []))"
  using assms
  by (auto simp: handleOpenPrompt_def Let_def text_result_def truthy_def
      split: option.splits list.splits)

theorem handleOpenPrompt_text_fallback_witness:
  "fst (handleOpenPrompt (example_env (example_reply None (Some ''Hello'') (Some ''ignored'')))
          ''Hi'' (availableActions example_ai) (Some 0) (initial_session 0))
     = Inr (text_response ''Hello'')
   \<and> fst (handleOpenPrompt (example_env (example_reply (Some []) (Some []) (Some ''Top'')))
          ''Hi'' (availableActions example_ai) (Some 0) (initial_session 0))
     = Inr (text_response ''Top'')
   \<and> fst (handleOpenPrompt (example_env (example_reply None None None))
          ''Hi'' (availableActions example_ai) (Some 0) (initial_session 0))
     = Inr (text_response ''{}'')"
  using
    handleOpenPrompt_text_fallback
      [of "example_env (example_reply None (Some ''Hello'') (Some ''ignored''))" "''Hi''"
          "availableActions example_ai"
          "\<lparr>choices = Some [\<lparr>choice_message = Some \<lparr>content = Some ''Hello'', tool_calls = None\<rparr>\<rparr>],
            data_content = Some ''ignored''\<rparr>" "Some 0" "initial_session 0"]
    handleOpenPrompt_text_fallback
      [of "example_env (example_reply (Some []) (Some []) (Some ''Top''))" "''Hi''"
          "availableActions example_ai"
          "\<lparr>choices = Some [\<lparr>choice_message = Some \<lparr>content = Some [], tool_calls = Some []\<rparr>\<rparr>],
            data_content = Some ''Top''\<rparr>" "Some 0" "initial_session 0"]
    handleOpenPrompt_text_fallback
      [of "example_env (example_reply None None None)" "''Hi''"
          "availableActions example_ai"
          "\<lparr>choices = Some [\<lparr>choice_message = Some \<lparr>content = None, tool_calls = None\<rparr>\<rparr>],
            data_content = None\<rparr>" "Some 0" "initial_session 0"]
  by (simp add: callOpenAI_def example_env_def example_reply_def truthy_def first_message_def
      message_tool_calls_def message_content_def)

section \<open>The first record of a session\<close>

text \<open>
  C9. The first record of a session gets id 0. With that id as \<open>originalLogId\<close>,
  \<open>updateOriginalLog\<close> leaves the log as it is, so that
  \<open>executeToolCallsFromPrompt\<close> ends in the session the loop left, and
  \<open>handleError\<close> is \<open>updateCurrentLog\<close> on whichever record is last.
\<close>

theorem first_record_id_zero:
  "currentLogId (initial_session ai) = 0
   \<and> map log_id (actionLogs (addActionLog act p (initial_session ai))) = [0]
   \<and> updateOriginalLog (Some 0) logs n = logs
   \<and> executeToolCallsFromPrompt actions tcs (Some 0) s =
       (case executeToolCalls actions tcs s of
          (Inl err, s') \<Rightarrow> (Inl err, s')
        | (Inr lines, s') \<Rightarrow>
            (Inr (''Function calls executed:'' @ newline @ join newline lines), s'))
   \<and> handleError err (Some 0) s =
       updateCurrentLog \<lparr>upd_status = Some ''Open prompt failed.'', upd_partialResult = None,
                         upd_fullResult = None, upd_error = Some (message err)\<rparr> s"
  by (simp add: addActionLog_def initial_session_def updateOriginalLog_def handleError_def
      truthy_number_def executeToolCallsFromPrompt_def split: prod.splits sum.splits)

theorem first_record_id_zero_witness:
  "handleError (Error ''VITE_PROXY_URL not configured'') (Some 0)
     (addActionLog ''Highlight'' (Some ''later'')
        (addActionLog ''Open Prompt'' (Some ''Tidy up'') (initial_session (0::nat)))) =
   \<lparr>actionLogs =
      [\<lparr>log_id = 0, log_action = ''Open Prompt'', log_prompt = Some ''Tidy up'',
        log_status = ''Starting...'', log_partialResult = None, log_fullResult = None,
        log_error = None\<rparr>,
       \<lparr>log_id = 1, log_action = ''Highlight'', log_prompt = Some ''later'',
        log_status = ''Open prompt failed.'', log_partialResult = None, log_fullResult = None,
        log_error = Some ''VITE_PROXY_URL not configured''\<rparr>],
    currentLogId = 2, aiInstance = 0\<rparr>"
  using first_record_id_zero
    [of "0::nat" "''Open Prompt''" "Some ''Tidy up''" "[]" 0 "[]::nat action list" "[]"
        "addActionLog ''Highlight'' (Some ''later'')
           (addActionLog ''Open Prompt'' (Some ''Tidy up'') (initial_session (0::nat)))"
        "Error ''VITE_PROXY_URL not configured''"]
  by (simp add: addActionLog_def initial_session_def updateCurrentLog_def Object_assign_def)

text \<open>
  C1. The first turn of a session, with a reply that requests \<open>highlight\<close> then
  \<open>replace\<close>: both invocations run and end with \<open>Done.\<close>, and the summary joins
  their two lines in order, but the turn's own record, whose id is 0, keeps the status
  \<open>Executing 2 function call(s)...\<close>. The same turn, taken again in the session the
  first one left, has a record with id 3, and that record does end with
  \<open>All 2 function calls completed.\<close>
\<close>

theorem first_turn_completion_skipped:
  "map (\<lambda>l. (log_id l, log_action l, log_status l))
     (actionLogs (executeAction
        (example_env (example_reply (Some [highlight_call, replace_call]) None None))
        (availableActions example_ai) ''Tidy up'' (initial_session 0))) =
     [(0, ''Open Prompt'', ''Executing 2 function call(s)...''),
      (1, ''Highlight'', ''Done.''),
      (2, ''Replace'', ''Done.'')]
   \<and> fst (executeToolCallsFromPrompt (availableActions example_ai) [highlight_call, replace_call]
        (Some 0) (addActionLog ''Open Prompt'' (Some ''Tidy up'') (initial_session 0))) =
     Inr (''Function calls executed:'' @ newline
          @ check_mark @ '' Highlight: '' @ dquote @ ''the title'' @ dquote @ newline
          @ check_mark @ '' Replace: '' @ dquote @ ''foo by bar'' @ dquote)
   \<and> map (\<lambda>l. (log_id l, log_action l, log_status l))
     (actionLogs (executeAction
        (example_env (example_reply (Some [highlight_call, replace_call]) None None))
        (availableActions example_ai) ''Tidy up''
        (executeAction
           (example_env (example_reply (Some [highlight_call, replace_call]) None None))
           (availableActions example_ai) ''Tidy up'' (initial_session 0)))) =
     [(0, ''Open Prompt'', ''Executing 2 function call(s)...''),
      (1, ''Highlight'', ''Done.''),
      (2, ''Replace'', ''Done.''),
      (3, ''Open Prompt'', ''All 2 function calls completed.''),
      (4, ''Highlight'', ''Done.''),
      (5, ''Replace'', ''Done.'')]"
proof -
  have turn: "executeAction
        (example_env (example_reply (Some [highlight_call, replace_call]) None None))
        (availableActions example_ai) ''Tidy up'' s =
      (let s1 = addActionLog ''Open Prompt'' (Some ''Tidy up'') s;
           s2 = updateCurrentLog \<lparr>upd_status = Some ''Executing 2 function call(s)...'',
                  upd_partialResult = None, upd_fullResult = None, upd_error = None\<rparr> s1;
           s3 = snd (executeToolCalls (availableActions example_ai) [highlight_call, replace_call] s2)
       in s3\<lparr>actionLogs := updateOriginalLog (Some (currentLogId s)) (actionLogs s3) (Suc (Suc 0))\<rparr>)"
    for s :: "nat session"
    by (simp add: executeAction_def white_space_def example_turn_prompt
        executeToolCallsFromPrompt_def example_batch addActionLog_def Let_def)
  have first: "executeAction
        (example_env (example_reply (Some [highlight_call, replace_call]) None None))
        (availableActions example_ai) ''Tidy up'' (initial_session 0) =
      \<lparr>actionLogs =
         [\<lparr>log_id = 0, log_action = ''Open Prompt'', log_prompt = Some ''Tidy up'',
           log_status = ''Executing 2 function call(s)...'', log_partialResult = None,
           log_fullResult = None, log_error = None\<rparr>,
          \<lparr>log_id = 1, log_action = ''Highlight'', log_prompt = Some ''the title'',
           log_status = ''Done.'', log_partialResult = Some ''wor'',
           log_fullResult = Some ''work'', log_error = None\<rparr>,
          \<lparr>log_id = 2, log_action = ''Replace'', log_prompt = Some ''foo by bar'',
           log_status = ''Done.'', log_partialResult = Some ''wor'',
           log_fullResult = Some ''work'', log_error = None\<rparr>],
       currentLogId = 3, aiInstance = 2\<rparr>"
    by (simp add: turn example_batch updateOriginalLog_def truthy_number_def addActionLog_def
        initial_session_def updateCurrentLog_def Object_assign_def Let_def)
  have summary: "fst (executeToolCallsFromPrompt (availableActions example_ai)
        [highlight_call, replace_call] (Some 0)
        (addActionLog ''Open Prompt'' (Some ''Tidy up'') (initial_session 0))) =
     Inr (''Function calls executed:'' @ newline
          @ check_mark @ '' Highlight: '' @ dquote @ ''the title'' @ dquote @ newline
          @ check_mark @ '' Replace: '' @ dquote @ ''foo by bar'' @ dquote)"
    by (simp add: executeToolCallsFromPrompt_def example_batch)
  have second: "map (\<lambda>l. (log_id l, log_action l, log_status l))
     (actionLogs (executeAction
        (example_env (example_reply (Some [highlight_call, replace_call]) None None))
        (availableActions example_ai) ''Tidy up''
        (executeAction
           (example_env (example_reply (Some [highlight_call, replace_call]) None None))
           (availableActions example_ai) ''Tidy up'' (initial_session 0)))) =
     [(0, ''Open Prompt'', ''Executing 2 function call(s)...''),
      (1, ''Highlight'', ''Done.''),
      (2, ''Replace'', ''Done.''),
      (3, ''Open Prompt'', ''All 2 function calls completed.''),
      (4, ''Highlight'', ''Done.''),
      (5, ''Replace'', ''Done.'')]"
    unfolding first
    by (simp add: turn example_batch updateOriginalLog_def truthy_number_def addActionLog_def
        updateCurrentLog_def Object_assign_def show_nat.simps Let_def)
  from first summary second show ?thesis by simp
qed

section \<open>The relay service\<close>

text \<open>
  C10. With no upstream credential configured, the handler of the relay answers with
  status 500 and the error body \<open>OPENAI_API_KEY not configured\<close>, and makes no call
  to the upstream provider.
\<close>

theorem relay_post_no_credential:
  "\<not> truthy (OPENAI_API_KEY e) \<Longrightarrow>
     relay_post e request_body = (500, error_body ''OPENAI_API_KEY not configured'', [])"
  by (simp add: relay_post_def)

theorem relay_post_no_credential_witness:
  "\<not> truthy None
   \<and> relay_post \<lparr>OPENAI_API_KEY = None,
                  upstream = (\<lambda>req. Inl (Error ''unreachable'') :: js_error + unit upstream_response)\<rparr>
        ''{}'' = (500, error_body ''OPENAI_API_KEY not configured'', [])"
  using relay_post_no_credential
    [of "\<lparr>OPENAI_API_KEY = None,
          upstream = (\<lambda>req. Inl (Error ''unreachable'') :: js_error + unit upstream_response)\<rparr>"
        "''{}''"]
  by (simp add: truthy_def)

end
